theory Spec2Isabelle
  imports Main "HOL-Library.Word"
begin

chapter \<open>The contact form of the page\<close>

section \<open>JavaScript strings\<close>

text \<open>
  A JavaScript string is a sequence of 16-bit code units. String literals of the source
  that are plain ASCII are written with \<open>js\<close>; the few other characters of the status
  messages are given by their code units.
\<close>

type_synonym jschar = "16 word"
type_synonym jsstring = "jschar list"

definition js :: "string \<Rightarrow> jsstring" where
  "js s = map of_char s"

text \<open>
  The code units that \<open>String.prototype.trim\<close> strips and that \<open>\s\<close> matches in a regular
  expression: ECMAScript's WhiteSpace and LineTerminator.
\<close>

definition isWhiteSpace :: "jschar \<Rightarrow> bool" where
  "isWhiteSpace c \<longleftrightarrow>
     c = 0x0009 \<or> c = 0x000A \<or> c = 0x000B \<or> c = 0x000C \<or> c = 0x000D \<or> c = 0x0020 \<or>
     c = 0x00A0 \<or> c = 0x1680 \<or> (0x2000 \<le> c \<and> c \<le> 0x200A) \<or> c = 0x2028 \<or>
     c = 0x2029 \<or> c = 0x202F \<or> c = 0x205F \<or> c = 0x3000 \<or> c = 0xFEFF"

definition trim :: "jsstring \<Rightarrow> jsstring" where
  "trim s = rev (dropWhile isWhiteSpace (rev (dropWhile isWhiteSpace s)))"

text \<open>\<open>haystack.includes(needle)\<close>: the needle occurs at some position.\<close>

fun startsWith :: "jsstring \<Rightarrow> jsstring \<Rightarrow> bool" where
  "startsWith s [] = True"
| "startsWith [] (c # cs) = False"
| "startsWith (x # xs) (c # cs) = (x = c \<and> startsWith xs cs)"

fun includes_str :: "jsstring \<Rightarrow> jsstring \<Rightarrow> bool" where
  "includes_str [] needle = (needle = [])"
| "includes_str (x # xs) needle = (startsWith (x # xs) needle \<or> includes_str xs needle)"

text \<open>A number in a template literal: its decimal digits.\<close>

fun decimal :: "nat \<Rightarrow> jsstring" where
  "decimal n = (if n < 10 then [0x30 + of_nat n] else decimal (n div 10) @ [0x30 + of_nat (n mod 10)])"

declare decimal.simps [simp del]

section \<open>The regular expressions of the source\<close>

text \<open>
  Both regular expressions of \<open>validateField\<close> are anchored at \<open>^\<close> and \<open>$\<close>, carry no
  flags, and are sequences of single characters and of character classes under \<open>+\<close>.
  \<open>test\<close> decides whether the whole string matches such a sequence, trying every
  length for each \<open>+\<close> as a backtracking matcher does.
\<close>

datatype atom = Lit jschar | ClassPlus "jschar \<Rightarrow> bool"

fun test :: "atom list \<Rightarrow> jsstring \<Rightarrow> bool" where
  "test [] s = (s = [])"
| "test (Lit c # r) [] = False"
| "test (Lit c # r) (x # xs) = (x = c \<and> test r xs)"
| "test (ClassPlus P # r) [] = False"
| "test (ClassPlus P # r) (x # xs) = (P x \<and> (test r xs \<or> test (ClassPlus P # r) xs))"

text \<open>\<open>[a-zA-Z\s'-]\<close>\<close>

definition nameClass :: "jschar \<Rightarrow> bool" where
  "nameClass c \<longleftrightarrow>
     (0x61 \<le> c \<and> c \<le> 0x7A) \<or> (0x41 \<le> c \<and> c \<le> 0x5A) \<or> isWhiteSpace c \<or> c = 0x27 \<or> c = 0x2D"

text \<open>\<open>[^\s@]\<close>\<close>

definition emailClass :: "jschar \<Rightarrow> bool" where
  "emailClass c \<longleftrightarrow> \<not> (isWhiteSpace c \<or> c = 0x40)"

text \<open>\<open>/^[a-zA-Z\s'-]+$/\<close>\<close>

definition nameRegex :: "atom list" where
  "nameRegex = [ClassPlus nameClass]"

text \<open>\<open>/^[^\s@]+@[^\s@]+\.[^\s@]+$/\<close>\<close>

definition emailRegex :: "atom list" where
  "emailRegex = [ClassPlus emailClass, Lit 0x40, ClassPlus emailClass, Lit 0x2E, ClassPlus emailClass]"

section \<open>The page\<close>

text \<open>
  The handlers reach the page through \<open>document.getElementById\<close>, so the document is a
  partial map from ids to elements; a missing element is \<open>null\<close> in the source. An element
  carries the properties the handlers read or write. The \<open>classList\<close> is its list of class
  tokens.
\<close>

record element =
  fieldValue :: jsstring
  defaultValue :: jsstring
  classList :: "jsstring list"
  textContent :: jsstring
  disabled :: bool

text \<open>The calls that leave the page: the console, the network, the form and the event.\<close>

datatype effect =
    PreventDefault
  | ConsoleError jsstring
  | ConsoleLog jsstring
  | Fetch jsstring "(jsstring \<times> jsstring) list"
  | FormReset
  | ButtonDisabled bool
  | ButtonText jsstring

text \<open>
  \<open>formAction\<close> is \<open>form.action\<close>. \<open>ancillary\<close> are the named controls of the form
  other than the three fields, each with its name. \<open>timers\<close> are the due times of the
  pending \<open>setTimeout\<close> callbacks of \<open>showFormStatus\<close> (the only timers of the form
  code), \<open>clock\<close> the current time in milliseconds. \<open>effects\<close> records the calls made,
  oldest first; it also records each write to the submit button.
\<close>

record page =
  elements :: "jsstring \<rightharpoonup> element"
  formAction :: jsstring
  ancillary :: "(jsstring \<times> element) list"
  clock :: nat
  timers :: "nat list"
  effects :: "effect list"

datatype jserror = TypeError

definition getElementById :: "page \<Rightarrow> jsstring \<Rightarrow> element option" where
  "getElementById p i = elements p i"

definition setElement :: "jsstring \<Rightarrow> element \<Rightarrow> page \<Rightarrow> page" where
  "setElement i e p = p\<lparr>elements := (elements p)(i \<mapsto> e)\<rparr>"

definition perform :: "effect \<Rightarrow> page \<Rightarrow> page" where
  "perform x p = p\<lparr>effects := effects p @ [x]\<rparr>"

definition classList_add :: "jsstring \<Rightarrow> element \<Rightarrow> element" where
  "classList_add t e = (if t \<in> set (classList e) then e else e\<lparr>classList := classList e @ [t]\<rparr>)"

definition classList_remove :: "jsstring \<Rightarrow> element \<Rightarrow> element" where
  "classList_remove t e = e\<lparr>classList := removeAll t (classList e)\<rparr>"

section \<open>validateField\<close>

text \<open>
  The rules of \<open>validateField\<close> on the trimmed value: three \<open>if\<close> blocks in sequence, each
  guarded by the field's id, updating \<open>isValid\<close> and \<open>errorMsg\<close>.
\<close>

definition fieldRules :: "jsstring \<Rightarrow> jsstring \<Rightarrow> bool \<times> jsstring" where
  "fieldRules fid v =
    (let r0 = (True, []);
         r1 = (if fid = js ''name'' then
                 (if length v = 0 then (False, js ''Name is required'')
                  else if length v < 2 then (False, js ''Name must be at least 2 characters'')
                  else if \<not> test nameRegex v then
                    (False, js ''Name can only contain letters, spaces, hyphens, and apostrophes'')
                  else r0)
               else r0);
         r2 = (if fid = js ''email'' then
                 (if length v = 0 then (False, js ''Email is required'')
                  else if \<not> test emailRegex v then (False, js ''Please enter a valid email address'')
                  else r1)
               else r1);
         r3 = (if fid = js ''message'' then
                 (if length v = 0 then (False, js ''Message is required'')
                  else if length v < 10 then (False, js ''Message must be at least 10 characters'')
                  else r2)
               else r2)
     in r3)"

text \<open>
  \<open>validateField({target: field})\<close> for the element with id \<open>fid\<close>. Reading \<open>field.value\<close> of
  \<open>null\<close> throws. The error element, when there is one, gets the message or is emptied.
\<close>

definition setErrorText :: "jsstring \<Rightarrow> jsstring \<Rightarrow> page \<Rightarrow> page" where
  "setErrorText fid msg p =
    (case getElementById p (fid @ js ''-error'') of
       None \<Rightarrow> p
     | Some errorElement \<Rightarrow> setElement (fid @ js ''-error'') (errorElement\<lparr>textContent := msg\<rparr>) p)"

definition validateField :: "jsstring \<Rightarrow> page \<Rightarrow> jserror + bool \<times> page" where
  "validateField fid p =
    (case getElementById p fid of
       None \<Rightarrow> Inl TypeError
     | Some field \<Rightarrow>
         (let v = trim (fieldValue field);
              (isValid, errorMsg) = fieldRules fid v
          in if \<not> isValid
             then Inr (isValid, setErrorText fid errorMsg (setElement fid (classList_add (js ''error'') field) p))
             else Inr (isValid, setErrorText fid [] (setElement fid (classList_remove (js ''error'') field) p))))"

section \<open>showFormStatus\<close>

definition showFormStatus :: "jsstring \<Rightarrow> jsstring \<Rightarrow> page \<Rightarrow> page" where
  "showFormStatus message type p =
    (case getElementById p (js ''form-status'') of
       None \<Rightarrow> p
     | Some statusDiv \<Rightarrow>
         (let p1 = setElement (js ''form-status'')
                     (statusDiv\<lparr>textContent := message,
                                classList := [js ''form-status'', js ''show'', type]\<rparr>) p
          in if type = js ''success'' then p1\<lparr>timers := timers p1 @ [clock p1 + 4000]\<rparr> else p1))"

text \<open>The timer's callback: \<open>statusDiv.classList.remove('show')\<close>.\<close>

definition hideStatus :: "page \<Rightarrow> page" where
  "hideStatus p =
    (case getElementById p (js ''form-status'') of
       None \<Rightarrow> p
     | Some statusDiv \<Rightarrow> setElement (js ''form-status'') (classList_remove (js ''show'') statusDiv) p)"

text \<open>
  The browser's timer queue: when \<open>dt\<close> milliseconds pass, every callback that is due
  runs and leaves the queue.
\<close>

definition advance :: "nat \<Rightarrow> page \<Rightarrow> page" where
  "advance dt p =
    (let t = clock p + dt;
         due = filter (\<lambda>d. d \<le> t) (timers p);
         later = filter (\<lambda>d. \<not> d \<le> t) (timers p)
     in (fold (\<lambda>d. hideStatus) due p)\<lparr>clock := t, timers := later\<rparr>)"

section \<open>handleFormSubmit\<close>

text \<open>The status messages of the source, with the code units of their leading symbols.\<close>

definition configurationErrorMessage :: jsstring where
  "configurationErrorMessage =
     [0x26A0, 0xFE0F] @
     js '' Configuration Error: Update your Formspree form ID in the HTML. Visit https://formspree.io/create/''"

definition fixErrorsMessage :: jsstring where
  "fixErrorsMessage = [0x26A0, 0xFE0F] @ js '' Please fix the errors above and try again.''"

definition successMessage :: jsstring where
  "successMessage = [0x2713] @ js '' Message sent successfully! I'll get back to you soon.''"

definition notFoundMessage :: jsstring where
  "notFoundMessage =
     [0x274C] @ js '' Formspree form not found. Update your form ID: https://formspree.io/create/''"

definition validationErrorMessage :: jsstring where
  "validationErrorMessage =
     [0x274C] @ js '' Formspree validation error. Check form field names in HTML.''"

definition networkErrorMessage :: jsstring where
  "networkErrorMessage = [0x274C] @ js '' Network error. Check your internet or CORS settings.''"

definition failedMessage :: jsstring where
  "failedMessage =
     [0x274C] @ js '' Failed to send message. Try again or email: narvariyasourabh447@gmail.com''"

text \<open>
  Modelled from the spec: the markup of the form is not part of the sources. By the
  spec's external interfaces the request body holds the field values under the keys
  \<open>name\<close>, \<open>email\<close> and \<open>message\<close>, plus the additional fields of the host form; so the
  form's named controls are the three fields, named as their ids, and \<open>ancillary\<close>.
  \<open>new FormData(form)\<close> lists each control's name with its current value;
  \<open>form.reset()\<close> gives each control its default value again.
\<close>

definition entryOf :: "page \<Rightarrow> jsstring \<Rightarrow> (jsstring \<times> jsstring) list" where
  "entryOf p i = (case getElementById p i of None \<Rightarrow> [] | Some e \<Rightarrow> [(i, fieldValue e)])"

definition FormData :: "page \<Rightarrow> (jsstring \<times> jsstring) list" where
  "FormData p =
     entryOf p (js ''name'') @ entryOf p (js ''email'') @ entryOf p (js ''message'') @
     map (\<lambda>(k, e). (k, fieldValue e)) (ancillary p)"

definition resetElement :: "element \<Rightarrow> element" where
  "resetElement e = e\<lparr>fieldValue := defaultValue e\<rparr>"

definition resetControl :: "jsstring \<Rightarrow> page \<Rightarrow> page" where
  "resetControl i p =
     (case getElementById p i of None \<Rightarrow> p | Some e \<Rightarrow> setElement i (resetElement e) p)"

definition formReset :: "page \<Rightarrow> page" where
  "formReset p =
     perform FormReset
       ((resetControl (js ''message'') (resetControl (js ''email'') (resetControl (js ''name'') p)))
          \<lparr>ancillary := map (\<lambda>(k, e). (k, resetElement e)) (ancillary p)\<rparr>)"

text \<open>
  How a call of the handler ends: it returns early, it throws, or it has issued the
  request and its promise is pending; the callbacks of the promise keep \<open>originalText\<close>.
\<close>

datatype completion = Returned | Thrown jserror | Pending jsstring

definition handleFormSubmit :: "page \<Rightarrow> completion \<times> page" where
  "handleFormSubmit p0 =
    (let p = perform PreventDefault p0 in
     if includes_str (formAction p) (js ''YOUR_FORMSPREE_ID'') \<or> includes_str (formAction p) (js ''xyzqwvba'')
     then (Returned,
           perform (ConsoleError (js ''ERROR: Formspree form ID not configured properly in index.html''))
             (showFormStatus configurationErrorMessage (js ''error'') p))
     else
      (case validateField (js ''name'') p of
         Inl err \<Rightarrow> (Thrown err, p)
       | Inr (isNameValid, p1) \<Rightarrow>
      (case validateField (js ''email'') p1 of
         Inl err \<Rightarrow> (Thrown err, p1)
       | Inr (isEmailValid, p2) \<Rightarrow>
      (case validateField (js ''message'') p2 of
         Inl err \<Rightarrow> (Thrown err, p2)
       | Inr (isMessageValid, p3) \<Rightarrow>
          if \<not> isNameValid \<or> \<not> isEmailValid \<or> \<not> isMessageValid
          then (Returned, showFormStatus fixErrorsMessage (js ''error'') p3)
          else
           (case getElementById p3 (js ''submit-btn'') of
              None \<Rightarrow> (Thrown TypeError, p3)
            | Some submitBtn \<Rightarrow>
               (let originalText = textContent submitBtn;
                    p4 = perform (ButtonDisabled True)
                           (setElement (js ''submit-btn'') (submitBtn\<lparr>disabled := True\<rparr>) p3);
                    p5 = perform (ButtonText (js ''Sending...''))
                           (setElement (js ''submit-btn'')
                              (submitBtn\<lparr>disabled := True, textContent := js ''Sending...''\<rparr>) p4);
                    formData = FormData p5
                in (Pending originalText, perform (Fetch (formAction p5) formData) p5)))))))"

text \<open>
  How the request settles: a response with its status, whose body parses as JSON or
  makes \<open>response.json()\<close> reject with a message; or no response, \<open>fetch\<close> rejecting
  with a message.
\<close>

datatype settlement = Response nat "jsstring option" | NoResponse jsstring

text \<open>
  The \<open>then\<close> callback. \<open>Inl m\<close>: the promise it returns rejects with an error whose
  message is \<open>m\<close>. The time stamp of the console line is left out.
\<close>

definition thenCallback :: "nat \<Rightarrow> jsstring option \<Rightarrow> page \<Rightarrow> (jsstring + unit) \<times> page" where
  "thenCallback status jsonError p =
    (if 200 \<le> status \<and> status \<le> 299 then
       (let p1 = showFormStatus successMessage (js ''success'') p;
            p2 = formReset p1;
            p3 = perform (ConsoleLog ([0x2713] @ js '' Form submitted successfully to Formspree at'')) p2
        in (case jsonError of None \<Rightarrow> (Inr (), p3) | Some m \<Rightarrow> (Inl m, p3)))
     else if status = 404 then (Inl (js ''FORMSPREE_NOT_FOUND''), p)
     else if status = 422 then (Inl (js ''FORMSPREE_VALIDATION_ERROR''), p)
     else (Inl (js ''FORMSPREE_ERROR_'' @ decimal status), p))"

text \<open>
  The \<open>catch\<close> callback, for an error with the given message. The console prints its
  two arguments with a space between them.
\<close>

definition catchCallback :: "jsstring \<Rightarrow> page \<Rightarrow> page" where
  "catchCallback message p0 =
    (let p = perform (ConsoleError (js ''Form submission error: '' @ message)) p0 in
     if message = js ''FORMSPREE_NOT_FOUND'' then showFormStatus notFoundMessage (js ''error'') p
     else if message = js ''FORMSPREE_VALIDATION_ERROR'' then
       showFormStatus validationErrorMessage (js ''error'') p
     else if includes_str message (js ''Failed to fetch'') then
       showFormStatus networkErrorMessage (js ''error'') p
     else showFormStatus failedMessage (js ''error'') p)"

text \<open>
  The \<open>finally\<close> callback writes to the button that the handler found; were the button
  no longer in the document, the page would not show the two writes.
\<close>

definition setButton :: "(element \<Rightarrow> element) \<Rightarrow> page \<Rightarrow> page" where
  "setButton f p =
    (case getElementById p (js ''submit-btn'') of
       None \<Rightarrow> p
     | Some submitBtn \<Rightarrow> setElement (js ''submit-btn'') (f submitBtn) p)"

definition finallyCallback :: "jsstring \<Rightarrow> page \<Rightarrow> page" where
  "finallyCallback originalText p =
    (let p1 = perform (ButtonDisabled False) (setButton (\<lambda>b. b\<lparr>disabled := False\<rparr>) p);
         p2 = perform (ButtonText originalText) (setButton (\<lambda>b. b\<lparr>textContent := originalText\<rparr>) p1)
     in p2)"

text \<open>The promise chain \<open>fetch(...).then(...).catch(...).finally(...)\<close> once the request settles.\<close>

definition settle :: "jsstring \<Rightarrow> settlement \<Rightarrow> page \<Rightarrow> page" where
  "settle originalText r p =
    (case r of
       NoResponse message \<Rightarrow> finallyCallback originalText (catchCallback message p)
     | Response status jsonError \<Rightarrow>
        (case thenCallback status jsonError p of
           (Inl message, p1) \<Rightarrow> finallyCallback originalText (catchCallback message p1)
         | (Inr u, p1) \<Rightarrow> finallyCallback originalText p1))"

text \<open>One submit attempt: the handler's call, and the settling of its request if it issued one.\<close>

definition submitAttempt :: "settlement \<Rightarrow> page \<Rightarrow> page" where
  "submitAttempt r p =
    (case handleFormSubmit p of
       (Pending originalText, p1) \<Rightarrow> settle originalText r p1
     | (Returned, p1) \<Rightarrow> p1
     | (Thrown err, p1) \<Rightarrow> p1)"

chapter \<open>Notions for the properties\<close>

section \<open>The vocabulary of the specification\<close>

text \<open>
  The specification gives the rules of each field as a table, evaluated in order, the
  first failing rule deciding the result and the message.
\<close>

definition ruleTable :: "jsstring \<Rightarrow> ((jsstring \<Rightarrow> bool) \<times> jsstring) list" where
  "ruleTable fid =
    (if fid = js ''name'' then
       [(\<lambda>v. v \<noteq> [], js ''Name is required''),
        (\<lambda>v. 2 \<le> length v, js ''Name must be at least 2 characters''),
        (\<lambda>v. test nameRegex v, js ''Name can only contain letters, spaces, hyphens, and apostrophes'')]
     else if fid = js ''email'' then
       [(\<lambda>v. v \<noteq> [], js ''Email is required''),
        (\<lambda>v. test emailRegex v, js ''Please enter a valid email address'')]
     else if fid = js ''message'' then
       [(\<lambda>v. v \<noteq> [], js ''Message is required''),
        (\<lambda>v. 10 \<le> length v, js ''Message must be at least 10 characters'')]
     else [])"

fun firstFailing :: "((jsstring \<Rightarrow> bool) \<times> jsstring) list \<Rightarrow> jsstring \<Rightarrow> bool \<times> jsstring" where
  "firstFailing [] v = (True, [])"
| "firstFailing ((holds, msg) # rules) v = (if holds v then firstFailing rules v else (False, msg))"

text \<open>
  The outcomes of the specification for a request that was issued, and its
  classification of the way the request settles.
\<close>

datatype outcome = Success | NotFound | RejectedByServer | ServerError nat | NetworkFailure

fun classify :: "settlement \<Rightarrow> outcome" where
  "classify (Response status jsonError) =
     (if 200 \<le> status \<and> status \<le> 299 then Success
      else if status = 404 then NotFound
      else if status = 422 then RejectedByServer
      else ServerError status)"
| "classify (NoResponse message) = NetworkFailure"

text \<open>
  The only contact channel that a status message of the source names is the e-mail
  address of the general failure message.
\<close>

definition mentionsContactEmail :: "jsstring \<Rightarrow> bool" where
  "mentionsContactEmail message = includes_str message (js ''narvariyasourabh447@gmail.com'')"

section \<open>Observations of a page\<close>

text \<open>The calls made between two states of the page.\<close>

definition newEffects :: "page \<Rightarrow> page \<Rightarrow> effect list" where
  "newEffects p p' = drop (length (effects p)) (effects p')"

fun isFetch :: "effect \<Rightarrow> bool" where
  "isFetch (Fetch url body) = True"
| "isFetch x = False"

fun isButtonWrite :: "effect \<Rightarrow> bool" where
  "isButtonWrite (ButtonDisabled b) = True"
| "isButtonWrite (ButtonText t) = True"
| "isButtonWrite x = False"

text \<open>What the status region shows, and its classes.\<close>

definition statusMessage :: "page \<Rightarrow> jsstring option" where
  "statusMessage p = map_option textContent (elements p (js ''form-status''))"

definition statusClasses :: "page \<Rightarrow> jsstring list option" where
  "statusClasses p = map_option classList (elements p (js ''form-status''))"

section \<open>The code in closed form\<close>

text \<open>
  The result and the page that a call of validateField leaves, for a field that
  exists; the page after the three calls of the handler; the message of the catch
  callback; and the page before the finally callback. Each is shown below to be what
  the code computes.
\<close>

definition fieldOk :: "jsstring \<Rightarrow> element \<Rightarrow> bool" where
  "fieldOk fid field = fst (fieldRules fid (trim (fieldValue field)))"

definition afterValidation :: "jsstring \<Rightarrow> element \<Rightarrow> page \<Rightarrow> page" where
  "afterValidation fid field p =
     setErrorText fid (snd (fieldRules fid (trim (fieldValue field))))
       (setElement fid
          ((if fieldOk fid field then classList_remove (js ''error'') else classList_add (js ''error'')) field) p)"

definition validated :: "element \<Rightarrow> element \<Rightarrow> element \<Rightarrow> page \<Rightarrow> page" where
  "validated n e m p =
     afterValidation (js ''message'') m
       (afterValidation (js ''email'') e
          (afterValidation (js ''name'') n (perform PreventDefault p)))"

definition catchMessage :: "jsstring \<Rightarrow> jsstring" where
  "catchMessage message =
    (if message = js ''FORMSPREE_NOT_FOUND'' then notFoundMessage
     else if message = js ''FORMSPREE_VALIDATION_ERROR'' then validationErrorMessage
     else if includes_str message (js ''Failed to fetch'') then networkErrorMessage
     else failedMessage)"

definition settled :: "settlement \<Rightarrow> page \<Rightarrow> page" where
  "settled r p =
    (case r of
       NoResponse message \<Rightarrow> catchCallback message p
     | Response status jsonError \<Rightarrow>
         if 200 \<le> status \<and> status \<le> 299 then
           (let p3 = perform (ConsoleLog ([0x2713] @ js '' Form submitted successfully to Formspree at''))
                       (formReset (showFormStatus successMessage (js ''success'') p))
            in case jsonError of None \<Rightarrow> p3 | Some message \<Rightarrow> catchCallback message p3)
         else if status = 404 then catchCallback (js ''FORMSPREE_NOT_FOUND'') p
         else if status = 422 then catchCallback (js ''FORMSPREE_VALIDATION_ERROR'') p
         else catchCallback (js ''FORMSPREE_ERROR_'' @ decimal status) p)"

section \<open>Sample pages\<close>

text \<open>
  A page with the three fields filled in (the e-mail address with a space on either
  side), one more input with its error element, the status region and the submit
  button. The form's endpoint is configured, and every default value is empty.
\<close>

definition blankElement :: element where
  "blankElement =
     \<lparr>fieldValue = [], defaultValue = [], classList = [], textContent = [], disabled = False\<rparr>"

definition examplePage :: page where
  "examplePage =
     \<lparr>elements =
        [js ''name'' \<mapsto> blankElement\<lparr>fieldValue := js ''Jane Doe''\<rparr>,
         js ''email'' \<mapsto> blankElement\<lparr>fieldValue := js '' jane@example.com ''\<rparr>,
         js ''message'' \<mapsto> blankElement\<lparr>fieldValue := js ''This is a long enough message.''\<rparr>,
         js ''phone'' \<mapsto> blankElement\<lparr>classList := [js ''error'']\<rparr>,
         js ''phone-error'' \<mapsto> blankElement\<lparr>textContent := js ''stale''\<rparr>,
         js ''form-status'' \<mapsto> blankElement\<lparr>classList := [js ''form-status'']\<rparr>,
         js ''submit-btn'' \<mapsto> blankElement\<lparr>textContent := js ''Send Message''\<rparr>],
      formAction = js ''https://formspree.io/f/abcde12345'',
      ancillary = [], clock = 0, timers = [], effects = []\<rparr>"

text \<open>The sample page with a message whose trimmed length is exactly ten.\<close>

definition boundaryPage :: page where
  "boundaryPage = setElement (js ''message'') (blankElement\<lparr>fieldValue := js ''  0123456789 ''\<rparr>) examplePage"

text \<open>
  The scenario of the specification: the name \<open>A\<close>, the address \<open>a@b.com\<close> and the
  message \<open>Hello there!\<close>.
\<close>

definition scenarioPage :: page where
  "scenarioPage =
     setElement (js ''name'') (blankElement\<lparr>fieldValue := js ''A''\<rparr>)
       (setElement (js ''email'') (blankElement\<lparr>fieldValue := js ''a@b.com''\<rparr>)
          (setElement (js ''message'') (blankElement\<lparr>fieldValue := js ''Hello there!''\<rparr>) examplePage))"

text \<open>The sample page with the placeholder endpoint of the setup instructions.\<close>

definition placeholderPage :: page where
  "placeholderPage = examplePage\<lparr>formAction := js ''https://formspree.io/f/YOUR_FORMSPREE_ID''\<rparr>"

text \<open>The sample page with a submit button that is disabled before the attempt.\<close>

definition disabledPage :: page where
  "disabledPage =
     setElement (js ''submit-btn'') (blankElement\<lparr>textContent := js ''Send Message'', disabled := True\<rparr>)
       examplePage"

chapter \<open>Properties\<close>

section \<open>Facts about strings\<close>

text \<open>ASCII literals are told apart by their characters.\<close>

lemma unat_of_char: "unat (of_char c :: jschar) = of_char c"
proof -
  have "(of_char c :: nat) < 65536" using nat_of_char_less_256 [of c] by linarith
  then have "unat (of_nat (of_char c) :: jschar) = of_char c"
    by (simp add: unat_of_nat)
  then show ?thesis by (simp only: of_nat_of_char)
qed

lemma of_char_word_eq_iff: "((of_char c :: jschar) = of_char d) = (c = d)"
proof
  assume "(of_char c :: jschar) = of_char d"
  then have "unat (of_char c :: jschar) = unat (of_char d :: jschar)" by simp
  then show "c = d" by (simp only: unat_of_char of_char_eq_iff)
qed simp

lemma js_eq_iff [simp]: "(js a = js b) = (a = b)"
proof (induction a arbitrary: b)
  case Nil
  then show ?case by (auto simp add: js_def)
next
  case (Cons x xs)
  then show ?case by (cases b) (simp_all add: js_def of_char_word_eq_iff)
qed

lemma js_append [simp]: "js a @ js b = js (a @ b)"
  by (simp add: js_def)

lemma length_js [simp]: "length (js a) = length a"
  by (simp add: js_def)

lemma js_Nil_iff [simp]: "(js a = []) = (a = [])" "([] = js a) = (a = [])"
  by (auto simp add: js_def)

section \<open>Facts about the operations on the page\<close>

lemma setElement_simps [simp]:
  "elements (setElement i e p) = (elements p)(i \<mapsto> e)"
  "formAction (setElement i e p) = formAction p"
  "ancillary (setElement i e p) = ancillary p"
  "clock (setElement i e p) = clock p"
  "timers (setElement i e p) = timers p"
  "effects (setElement i e p) = effects p"
  by (simp_all add: setElement_def)

lemma perform_simps [simp]:
  "elements (perform x p) = elements p"
  "formAction (perform x p) = formAction p"
  "ancillary (perform x p) = ancillary p"
  "clock (perform x p) = clock p"
  "timers (perform x p) = timers p"
  "effects (perform x p) = effects p @ [x]"
  by (simp_all add: perform_def)

declare getElementById_def [simp]

lemma setErrorText_simps [simp]:
  "elements (setErrorText fid m p) =
     (case elements p (fid @ js ''-error'') of None \<Rightarrow> elements p
      | Some e \<Rightarrow> (elements p)(fid @ js ''-error'' \<mapsto> e\<lparr>textContent := m\<rparr>))"
  "formAction (setErrorText fid m p) = formAction p"
  "ancillary (setErrorText fid m p) = ancillary p"
  "clock (setErrorText fid m p) = clock p"
  "timers (setErrorText fid m p) = timers p"
  "effects (setErrorText fid m p) = effects p"
  by (simp_all add: setErrorText_def split: option.splits)

lemma showFormStatus_simps [simp]:
  "formAction (showFormStatus m t p) = formAction p"
  "ancillary (showFormStatus m t p) = ancillary p"
  "clock (showFormStatus m t p) = clock p"
  "timers (showFormStatus m t p) =
     (if elements p (js ''form-status'') \<noteq> None \<and> t = js ''success''
      then timers p @ [clock p + 4000] else timers p)"
  "effects (showFormStatus m t p) = effects p"
  by (simp_all add: showFormStatus_def Let_def split: option.splits)

lemma showFormStatus_elements:
  "elements (showFormStatus m t p) i =
     (if i = js ''form-status''
      then map_option (\<lambda>s. s\<lparr>textContent := m, classList := [js ''form-status'', js ''show'', t]\<rparr>)
             (elements p i)
      else elements p i)"
  by (simp add: showFormStatus_def Let_def split: option.splits)

lemma showFormStatus_elements_other [simp]:
  "i \<noteq> js ''form-status'' \<Longrightarrow> elements (showFormStatus m t p) i = elements p i"
  by (simp add: showFormStatus_elements)

lemma showFormStatus_fieldValue [simp]:
  "map_option fieldValue (elements (showFormStatus m t p) i) = map_option fieldValue (elements p i)"
  "map_option defaultValue (elements (showFormStatus m t p) i) = map_option defaultValue (elements p i)"
  by (simp_all add: showFormStatus_elements option.map_comp o_def)

section \<open>Properties of validateField\<close>

text \<open>A call throws exactly when the element is missing.\<close>

lemma validateField_None: "elements p fid = None \<Longrightarrow> validateField fid p = Inl TypeError"
  by (simp add: validateField_def)

lemma validateField_Some:
  "elements p fid = Some field \<Longrightarrow>
   validateField fid p =
     Inr (fst (fieldRules fid (trim (fieldValue field))),
          setErrorText fid (snd (fieldRules fid (trim (fieldValue field))))
            (setElement fid
               ((if fst (fieldRules fid (trim (fieldValue field)))
                 then classList_remove (js ''error'') else classList_add (js ''error'')) field) p))"
  by (simp add: validateField_def Let_def split: prod.splits)
     (auto simp: fieldRules_def Let_def split: if_splits)

subsection \<open>What the two regular expressions accept\<close>

text \<open>
  A class under \<open>+\<close> takes a non-empty run of characters of the class, a single
  character takes itself. So the name pattern accepts the non-empty strings of
  letters, white space, apostrophes and hyphens, and the e-mail pattern the strings
  \<open>a@b.d\<close> with \<open>a\<close>, \<open>b\<close> and \<open>d\<close> non-empty and free of white space and \<open>@\<close>.
\<close>

lemma test_ClassPlus:
  "test (ClassPlus P # r) s = (\<exists>u w. s = u @ w \<and> u \<noteq> [] \<and> list_all P u \<and> test r w)"
proof (induction s)
  case Nil
  then show ?case by simp
next
  case (Cons x xs)
  show ?case
  proof
    assume "test (ClassPlus P # r) (x # xs)"
    then have x: "P x" and d: "test r xs \<or> test (ClassPlus P # r) xs" by simp_all
    from d show "\<exists>u w. x # xs = u @ w \<and> u \<noteq> [] \<and> list_all P u \<and> test r w"
    proof
      assume "test r xs"
      with x have "x # xs = [x] @ xs \<and> [x] \<noteq> [] \<and> list_all P [x] \<and> test r xs" by simp
      then show ?thesis by blast
    next
      assume "test (ClassPlus P # r) xs"
      with Cons.IH obtain u w where "xs = u @ w" "u \<noteq> []" "list_all P u" "test r w" by blast
      with x have "x # xs = (x # u) @ w \<and> x # u \<noteq> [] \<and> list_all P (x # u) \<and> test r w" by simp
      then show ?thesis by blast
    qed
  next
    assume "\<exists>u w. x # xs = u @ w \<and> u \<noteq> [] \<and> list_all P u \<and> test r w"
    then obtain u w where s: "x # xs = u @ w" and u: "u \<noteq> []" and a: "list_all P u" and t: "test r w"
      by blast
    from u obtain y ys where uy: "u = y # ys" by (cases u) auto
    with s have xy: "x = y" and xs: "xs = ys @ w" by simp_all
    from a uy xy have px: "P x" and ays: "list_all P ys" by simp_all
    show "test (ClassPlus P # r) (x # xs)"
    proof (cases "ys = []")
      case True
      with xs t px show ?thesis by simp
    next
      case False
      with xs ays t have "\<exists>u w. xs = u @ w \<and> u \<noteq> [] \<and> list_all P u \<and> test r w" by blast
      with Cons.IH px show ?thesis by simp
    qed
  qed
qed

lemma test_Lit: "test (Lit c # r) s = (\<exists>w. s = c # w \<and> test r w)"
  by (cases s) auto

lemma test_nameRegex: "test nameRegex v = (v \<noteq> [] \<and> list_all nameClass v)"
  by (auto simp add: nameRegex_def test_ClassPlus)

lemma test_emailRegex:
  "test emailRegex v =
     (\<exists>a b d. v = a @ [0x40] @ b @ [0x2E] @ d \<and> a \<noteq> [] \<and> b \<noteq> [] \<and> d \<noteq> [] \<and>
        list_all emailClass a \<and> list_all emailClass b \<and> list_all emailClass d)"
  unfolding emailRegex_def test_ClassPlus test_Lit
  by (simp add: ex_simps) blast

subsection \<open>The rule table\<close>

lemma fieldRules_ruleTable: "fieldRules fid v = firstFailing (ruleTable fid) v"
  by (simp add: fieldRules_def ruleTable_def Let_def)

lemma firstFailing_name:
  "(\<not> fst (firstFailing (ruleTable (js ''name'')) v)) = (v = [] \<or> length v < 2 \<or> \<not> test nameRegex v)"
  by (auto simp add: ruleTable_def)

lemma firstFailing_email:
  "(\<not> fst (firstFailing (ruleTable (js ''email'')) v)) = (v = [] \<or> \<not> test emailRegex v)"
  by (auto simp add: ruleTable_def)

lemma firstFailing_message:
  "(\<not> fst (firstFailing (ruleTable (js ''message'')) v)) = (v = [] \<or> length v < 10)"
  by (auto simp add: ruleTable_def)

text \<open>
  C2: validateField, on the trimmed value of the field, gives the result of the rule
  table under "first failing rule wins"; the field carries the \<open>error\<close> class exactly
  when the result is invalid, and the error element shows the message of the first
  failing rule (nothing when the value is valid). So a name is invalid iff it is
  empty, shorter than 2 or does not match \<open>^[a-zA-Z\s'-]+$\<close>; an e-mail address iff it
  is empty or does not match \<open>^[^\s@]+@[^\s@]+\.[^\s@]+$\<close>; a message iff it is empty
  or shorter than 10, and a message of trimmed length exactly 10 is valid.
\<close>

theorem validateField_rule_table:
  assumes "getElementById p fid = Some field" and "v = trim (fieldValue field)"
  shows "\<exists>isValid p' field'.
           validateField fid p = Inr (isValid, p') \<and>
           isValid = fst (firstFailing (ruleTable fid) v) \<and>
           getElementById p' fid = Some field' \<and>
           (js ''error'' \<in> set (classList field')) = (\<not> isValid) \<and>
           (case getElementById p (fid @ js ''-error'') of
              None \<Rightarrow> getElementById p' (fid @ js ''-error'') = None
            | Some e \<Rightarrow>
                getElementById p' (fid @ js ''-error'') =
                  Some (e\<lparr>textContent := snd (firstFailing (ruleTable fid) v)\<rparr>)) \<and>
           (fid = js ''name'' \<longrightarrow>
              (\<not> isValid) = (v = [] \<or> length v < 2 \<or> \<not> test nameRegex v)) \<and>
           (fid = js ''email'' \<longrightarrow> (\<not> isValid) = (v = [] \<or> \<not> test emailRegex v)) \<and>
           (fid = js ''message'' \<longrightarrow> (\<not> isValid) = (v = [] \<or> length v < 10)) \<and>
           (fid = js ''message'' \<and> length v = 10 \<longrightarrow> isValid)"
proof -
  let ?r = "firstFailing (ruleTable fid) v"
  let ?field' = "(if fst ?r then classList_remove (js ''error'') else classList_add (js ''error'')) field"
  let ?p' = "setErrorText fid (snd ?r) (setElement fid ?field' p)"
  from assms have v: "validateField fid p = Inr (fst ?r, ?p')"
    by (simp add: validateField_Some fieldRules_ruleTable)
  have f: "getElementById ?p' fid = Some ?field'"
    by (simp split: option.splits)
  have c: "(js ''error'' \<in> set (classList ?field')) = (\<not> fst ?r)"
    by (simp add: classList_remove_def classList_add_def)
  have e: "(case getElementById p (fid @ js ''-error'') of
              None \<Rightarrow> getElementById ?p' (fid @ js ''-error'') = None
            | Some e \<Rightarrow> getElementById ?p' (fid @ js ''-error'') = Some (e\<lparr>textContent := snd ?r\<rparr>))"
    by (simp split: option.splits)
  have n: "fid = js ''name'' \<longrightarrow> (\<not> fst ?r) = (v = [] \<or> length v < 2 \<or> \<not> test nameRegex v)"
    using firstFailing_name by blast
  have m: "fid = js ''email'' \<longrightarrow> (\<not> fst ?r) = (v = [] \<or> \<not> test emailRegex v)"
    using firstFailing_email by blast
  have g: "fid = js ''message'' \<longrightarrow> (\<not> fst ?r) = (v = [] \<or> length v < 10)"
    using firstFailing_message by blast
  have b: "fid = js ''message'' \<and> length v = 10 \<longrightarrow> fst ?r"
    using firstFailing_message [of v] by auto
  from v f c e n m g b show ?thesis by blast
qed

theorem validateField_rule_table_witness:
  "getElementById boundaryPage (js ''message'') = Some (blankElement\<lparr>fieldValue := js ''  0123456789 ''\<rparr>) \<and>
   length (trim (js ''  0123456789 '')) = 10 \<and>
   (\<exists>p'. validateField (js ''message'') boundaryPage = Inr (True, p'))"
proof -
  have f: "getElementById boundaryPage (js ''message'') = Some (blankElement\<lparr>fieldValue := js ''  0123456789 ''\<rparr>)"
    by (simp add: boundaryPage_def)
  have t: "trim (js ''  0123456789 '') = js ''0123456789''"
    by (simp add: trim_def js_def isWhiteSpace_def)
  have v: "js ''0123456789'' = trim (fieldValue (blankElement\<lparr>fieldValue := js ''  0123456789 ''\<rparr>))"
    using t by simp
  from validateField_rule_table [OF f v]
  obtain isValid p' where "validateField (js ''message'') boundaryPage = Inr (isValid, p')"
    and "js ''message'' = js ''message'' \<and> length (js ''0123456789'') = 10 \<longrightarrow> isValid"
    by blast
  then have "validateField (js ''message'') boundaryPage = Inr (True, p')" by simp
  with f t show ?thesis by auto
qed

subsection \<open>Fields without rules\<close>

lemma fieldRules_other:
  "fid \<noteq> js ''name'' \<Longrightarrow> fid \<noteq> js ''email'' \<Longrightarrow> fid \<noteq> js ''message'' \<Longrightarrow> fieldRules fid v = (True, [])"
  by (simp add: fieldRules_def)

text \<open>
  C10: for a field whose id is none of \<open>name\<close>, \<open>email\<close> and \<open>message\<close>, validateField
  returns true whatever the value is (the empty string included); the field ends
  without the \<open>error\<close> class, its value untouched, and its error element, if there is
  one, ends with an empty text.
\<close>

theorem validateField_other_id:
  assumes "fid \<noteq> js ''name''" and "fid \<noteq> js ''email''" and "fid \<noteq> js ''message''"
    and "getElementById p fid = Some field"
  shows "\<exists>p' field'. validateField fid p = Inr (True, p') \<and>
           getElementById p' fid = Some field' \<and>
           js ''error'' \<notin> set (classList field') \<and>
           fieldValue field' = fieldValue field \<and>
           (case getElementById p (fid @ js ''-error'') of
              None \<Rightarrow> getElementById p' (fid @ js ''-error'') = None
            | Some e \<Rightarrow> getElementById p' (fid @ js ''-error'') = Some (e\<lparr>textContent := []\<rparr>))"
  using assms
  by (simp add: validateField_Some fieldRules_other classList_remove_def split: option.splits)

theorem validateField_other_id_witness:
  "\<exists>p' field'. validateField (js ''phone'') examplePage = Inr (True, p') \<and>
       getElementById p' (js ''phone'') = Some field' \<and>
       js ''error'' \<notin> set (classList field') \<and>
       fieldValue field' = [] \<and>
       map_option textContent (getElementById p' (js ''phone-error'')) = Some []"
proof -
  have f: "getElementById examplePage (js ''phone'') = Some (blankElement\<lparr>classList := [js ''error'']\<rparr>)"
    by (simp add: examplePage_def)
  have e: "getElementById examplePage (js ''phone'' @ js ''-error'') = Some (blankElement\<lparr>textContent := js ''stale''\<rparr>)"
    by (simp add: examplePage_def)
  from validateField_other_id [of "js ''phone''" examplePage, OF _ _ _ f]
  obtain p' field' where "validateField (js ''phone'') examplePage = Inr (True, p')"
    "getElementById p' (js ''phone'') = Some field'" "js ''error'' \<notin> set (classList field')"
    "fieldValue field' = fieldValue (blankElement\<lparr>classList := [js ''error'']\<rparr>)"
    "(case getElementById examplePage (js ''phone'' @ js ''-error'') of
              None \<Rightarrow> getElementById p' (js ''phone'' @ js ''-error'') = None
            | Some e \<Rightarrow> getElementById p' (js ''phone'' @ js ''-error'') = Some (e\<lparr>textContent := []\<rparr>))"
    by auto
  then show ?thesis using e by (simp add: blankElement_def)
qed

section \<open>Properties of handleFormSubmit\<close>

subsection \<open>The three calls of validateField\<close>

text \<open>
  A call changes the field and its error element only, and no value; so the three
  calls of the handler do not disturb one another.
\<close>

lemma validateField_eq:
  "validateField fid p =
     (case elements p fid of None \<Rightarrow> Inl TypeError
      | Some field \<Rightarrow> Inr (fieldOk fid field, afterValidation fid field p))"
  by (simp add: validateField_None validateField_Some fieldOk_def afterValidation_def split: option.splits)

lemma afterValidation_simps [simp]:
  "formAction (afterValidation fid field p) = formAction p"
  "ancillary (afterValidation fid field p) = ancillary p"
  "clock (afterValidation fid field p) = clock p"
  "timers (afterValidation fid field p) = timers p"
  "effects (afterValidation fid field p) = effects p"
  by (simp_all add: afterValidation_def)

lemma afterValidation_other:
  "i \<noteq> fid \<Longrightarrow> i \<noteq> fid @ js ''-error'' \<Longrightarrow> elements (afterValidation fid field p) i = elements p i"
  by (simp add: afterValidation_def split: option.splits)

lemma afterValidation_fieldValue:
  "elements p fid = Some field \<Longrightarrow>
   map_option fieldValue (elements (afterValidation fid field p) i) = map_option fieldValue (elements p i)"
  by (auto simp add: afterValidation_def classList_remove_def classList_add_def split: option.splits)

lemma afterValidation_defaultValue:
  "elements p fid = Some field \<Longrightarrow>
   map_option defaultValue (elements (afterValidation fid field p) i) = map_option defaultValue (elements p i)"
  by (auto simp add: afterValidation_def classList_remove_def classList_add_def split: option.splits)

lemma afterValidation_elements_simps [simp]:
  "elements (afterValidation (js ''name'') f p) (js ''email'') = elements p (js ''email'')"
  "elements (afterValidation (js ''name'') f p) (js ''message'') = elements p (js ''message'')"
  "elements (afterValidation (js ''name'') f p) (js ''submit-btn'') = elements p (js ''submit-btn'')"
  "elements (afterValidation (js ''name'') f p) (js ''form-status'') = elements p (js ''form-status'')"
  "elements (afterValidation (js ''email'') f p) (js ''message'') = elements p (js ''message'')"
  "elements (afterValidation (js ''email'') f p) (js ''submit-btn'') = elements p (js ''submit-btn'')"
  "elements (afterValidation (js ''email'') f p) (js ''form-status'') = elements p (js ''form-status'')"
  "elements (afterValidation (js ''message'') f p) (js ''submit-btn'') = elements p (js ''submit-btn'')"
  "elements (afterValidation (js ''message'') f p) (js ''form-status'') = elements p (js ''form-status'')"
  by (simp_all add: afterValidation_other)

subsection \<open>The ways through the handler\<close>

lemma handleFormSubmit_eq:
  "handleFormSubmit p =
    (if includes_str (formAction p) (js ''YOUR_FORMSPREE_ID'') \<or> includes_str (formAction p) (js ''xyzqwvba'')
     then (Returned,
           perform (ConsoleError (js ''ERROR: Formspree form ID not configured properly in index.html''))
             (showFormStatus configurationErrorMessage (js ''error'') (perform PreventDefault p)))
     else
      (case elements p (js ''name'') of
         None \<Rightarrow> (Thrown TypeError, perform PreventDefault p)
       | Some n \<Rightarrow>
      (case elements p (js ''email'') of
         None \<Rightarrow> (Thrown TypeError, afterValidation (js ''name'') n (perform PreventDefault p))
       | Some e \<Rightarrow>
      (case elements p (js ''message'') of
         None \<Rightarrow> (Thrown TypeError,
                   afterValidation (js ''email'') e (afterValidation (js ''name'') n (perform PreventDefault p)))
       | Some m \<Rightarrow>
          if \<not> (fieldOk (js ''name'') n \<and> fieldOk (js ''email'') e \<and> fieldOk (js ''message'') m)
          then (Returned, showFormStatus fixErrorsMessage (js ''error'') (validated n e m p))
          else
           (case elements p (js ''submit-btn'') of
              None \<Rightarrow> (Thrown TypeError, validated n e m p)
            | Some b \<Rightarrow>
               (Pending (textContent b),
                perform (Fetch (formAction p) (FormData (validated n e m p)))
                  (perform (ButtonText (js ''Sending...''))
                     (perform (ButtonDisabled True)
                        (setElement (js ''submit-btn'')
                           (b\<lparr>disabled := True, textContent := js ''Sending...''\<rparr>)
                           (validated n e m p))))))))))"
  by (simp add: handleFormSubmit_def validateField_eq Let_def validated_def FormData_def entryOf_def
      split: option.splits)

lemma validated_simps [simp]:
  "formAction (validated n e m p) = formAction p"
  "ancillary (validated n e m p) = ancillary p"
  "clock (validated n e m p) = clock p"
  "timers (validated n e m p) = timers p"
  "effects (validated n e m p) = effects p @ [PreventDefault]"
  "elements (validated n e m p) (js ''submit-btn'') = elements p (js ''submit-btn'')"
  "elements (validated n e m p) (js ''form-status'') = elements p (js ''form-status'')"
  by (simp_all add: validated_def)

lemma validated_fieldValue:
  assumes "elements p (js ''name'') = Some n" and "elements p (js ''email'') = Some e"
    and "elements p (js ''message'') = Some m"
  shows "map_option fieldValue (elements (validated n e m p) i) = map_option fieldValue (elements p i)"
proof -
  let ?q = "perform PreventDefault p"
  let ?p1 = "afterValidation (js ''name'') n ?q"
  let ?p2 = "afterValidation (js ''email'') e ?p1"
  from assms have 1: "elements ?q (js ''name'') = Some n" by simp
  from assms have 2: "elements ?p1 (js ''email'') = Some e" by simp
  from assms have 3: "elements ?p2 (js ''message'') = Some m" by simp
  show ?thesis
    unfolding validated_def
    by (simp add: afterValidation_fieldValue [OF 3] afterValidation_fieldValue [OF 2]
        afterValidation_fieldValue [OF 1])
qed

lemma validated_defaultValue:
  assumes "elements p (js ''name'') = Some n" and "elements p (js ''email'') = Some e"
    and "elements p (js ''message'') = Some m"
  shows "map_option defaultValue (elements (validated n e m p) i) = map_option defaultValue (elements p i)"
proof -
  let ?q = "perform PreventDefault p"
  let ?p1 = "afterValidation (js ''name'') n ?q"
  let ?p2 = "afterValidation (js ''email'') e ?p1"
  from assms have 1: "elements ?q (js ''name'') = Some n" by simp
  from assms have 2: "elements ?p1 (js ''email'') = Some e" by simp
  from assms have 3: "elements ?p2 (js ''message'') = Some m" by simp
  show ?thesis
    unfolding validated_def
    by (simp add: afterValidation_defaultValue [OF 3] afterValidation_defaultValue [OF 2]
        afterValidation_defaultValue [OF 1])
qed

lemma entryOf_fieldValue:
  "map_option fieldValue (elements p' i) = map_option fieldValue (elements p i) \<Longrightarrow> entryOf p' i = entryOf p i"
  by (cases "elements p i"; cases "elements p' i") (simp_all add: entryOf_def)

lemma FormData_validated:
  assumes "elements p (js ''name'') = Some n" and "elements p (js ''email'') = Some e"
    and "elements p (js ''message'') = Some m"
  shows "FormData (validated n e m p) =
           [(js ''name'', fieldValue n), (js ''email'', fieldValue e), (js ''message'', fieldValue m)] @
           map (\<lambda>(k, c). (k, fieldValue c)) (ancillary p)"
proof -
  have "entryOf (validated n e m p) i = entryOf p i" for i
    by (rule entryOf_fieldValue) (rule validated_fieldValue [OF assms])
  then show ?thesis using assms by (simp add: FormData_def) (simp add: entryOf_def)
qed

text \<open>A run that issues the request, and a run that does not.\<close>

lemma handleFormSubmit_Pending:
  assumes "handleFormSubmit p = (Pending t, p')"
  shows "\<exists>n e m b.
           elements p (js ''name'') = Some n \<and> elements p (js ''email'') = Some e \<and>
           elements p (js ''message'') = Some m \<and> elements p (js ''submit-btn'') = Some b \<and>
           fieldOk (js ''name'') n \<and> fieldOk (js ''email'') e \<and> fieldOk (js ''message'') m \<and>
           \<not> includes_str (formAction p) (js ''YOUR_FORMSPREE_ID'') \<and>
           \<not> includes_str (formAction p) (js ''xyzqwvba'') \<and>
           t = textContent b \<and>
           p' = perform (Fetch (formAction p) (FormData (validated n e m p)))
                  (perform (ButtonText (js ''Sending...''))
                     (perform (ButtonDisabled True)
                        (setElement (js ''submit-btn'')
                           (b\<lparr>disabled := True, textContent := js ''Sending...''\<rparr>)
                           (validated n e m p))))"
  using assms unfolding handleFormSubmit_eq
  by (auto split: if_splits option.splits)

lemma handleFormSubmit_not_Pending:
  assumes "handleFormSubmit p = (c, p')" and "\<forall>t. c \<noteq> Pending t"
  shows "filter isFetch (newEffects p p') = [] \<and> filter isButtonWrite (newEffects p p') = [] \<and>
         FormReset \<notin> set (newEffects p p') \<and>
         elements p' (js ''submit-btn'') = elements p (js ''submit-btn'') \<and>
         ancillary p' = ancillary p \<and>
         (\<forall>i. map_option fieldValue (elements p' i) = map_option fieldValue (elements p i))"
  using assms unfolding handleFormSubmit_eq
  by (auto split: if_splits option.splits
      simp add: newEffects_def validated_fieldValue afterValidation_fieldValue)

subsection \<open>The handler on the sample pages\<close>

lemma includes_examplePage:
  "\<not> includes_str (formAction examplePage) (js ''YOUR_FORMSPREE_ID'')"
  "\<not> includes_str (formAction examplePage) (js ''xyzqwvba'')"
  by (simp_all add: examplePage_def js_def)

lemma elements_examplePage:
  "elements examplePage (js ''name'') = Some (blankElement\<lparr>fieldValue := js ''Jane Doe''\<rparr>)"
  "elements examplePage (js ''email'') = Some (blankElement\<lparr>fieldValue := js '' jane@example.com ''\<rparr>)"
  "elements examplePage (js ''message'') = Some (blankElement\<lparr>fieldValue := js ''This is a long enough message.''\<rparr>)"
  "elements examplePage (js ''submit-btn'') = Some (blankElement\<lparr>textContent := js ''Send Message''\<rparr>)"
  "elements examplePage (js ''form-status'') = Some (blankElement\<lparr>classList := [js ''form-status'']\<rparr>)"
  by (simp_all add: examplePage_def)

lemma fieldOk_examplePage:
  "fieldOk (js ''name'') (blankElement\<lparr>fieldValue := js ''Jane Doe''\<rparr>)"
  "fieldOk (js ''email'') (blankElement\<lparr>fieldValue := js '' jane@example.com ''\<rparr>)"
  "fieldOk (js ''message'') (blankElement\<lparr>fieldValue := js ''This is a long enough message.''\<rparr>)"
  by (simp_all add: fieldOk_def fieldRules_def trim_def js_def isWhiteSpace_def nameRegex_def
      nameClass_def emailRegex_def emailClass_def)

lemma handleFormSubmit_examplePage:
  "handleFormSubmit examplePage =
     (Pending (js ''Send Message''),
      perform (Fetch (js ''https://formspree.io/f/abcde12345'')
                 [(js ''name'', js ''Jane Doe''), (js ''email'', js '' jane@example.com ''),
                  (js ''message'', js ''This is a long enough message.'')])
        (perform (ButtonText (js ''Sending...''))
           (perform (ButtonDisabled True)
              (setElement (js ''submit-btn'')
                 (blankElement\<lparr>disabled := True, textContent := js ''Sending...''\<rparr>)
                 (validated (blankElement\<lparr>fieldValue := js ''Jane Doe''\<rparr>)
                    (blankElement\<lparr>fieldValue := js '' jane@example.com ''\<rparr>)
                    (blankElement\<lparr>fieldValue := js ''This is a long enough message.''\<rparr>)
                    examplePage)))))"
  by (simp add: handleFormSubmit_eq includes_examplePage elements_examplePage fieldOk_examplePage
      FormData_validated)
     (simp add: examplePage_def)

lemma newEffects_examplePage:
  "newEffects examplePage (snd (handleFormSubmit examplePage)) =
     [PreventDefault, ButtonDisabled True, ButtonText (js ''Sending...''),
      Fetch (js ''https://formspree.io/f/abcde12345'')
        [(js ''name'', js ''Jane Doe''), (js ''email'', js '' jane@example.com ''),
         (js ''message'', js ''This is a long enough message.'')]]"
  by (simp add: handleFormSubmit_examplePage newEffects_def)

subsection \<open>The request and the validation\<close>

text \<open>
  C1: a run of the handler issues the request only if validateField returned true
  for all three fields in this same run; if one of the three calls returns false, the
  run makes no request. A run makes at most one request.
\<close>

theorem fetch_only_if_all_valid:
  "(filter isFetch (newEffects p (snd (handleFormSubmit p))) \<noteq> [] \<longrightarrow>
      (\<exists>p1 p2 p3.
          validateField (js ''name'') (perform PreventDefault p) = Inr (True, p1) \<and>
          validateField (js ''email'') p1 = Inr (True, p2) \<and>
          validateField (js ''message'') p2 = Inr (True, p3))) \<and>
   (\<forall>okName okEmail okMessage p1 p2 p3.
      validateField (js ''name'') (perform PreventDefault p) = Inr (okName, p1) \<and>
      validateField (js ''email'') p1 = Inr (okEmail, p2) \<and>
      validateField (js ''message'') p2 = Inr (okMessage, p3) \<and>
      \<not> (okName \<and> okEmail \<and> okMessage) \<longrightarrow>
      filter isFetch (newEffects p (snd (handleFormSubmit p))) = []) \<and>
   length (filter isFetch (newEffects p (snd (handleFormSubmit p)))) \<le> 1"
proof -
  obtain c p' where h: "handleFormSubmit p = (c, p')" by (cases "handleFormSubmit p")
  show ?thesis
  proof (cases "\<exists>t. c = Pending t")
    case True
    then obtain t where "handleFormSubmit p = (Pending t, p')" using h by blast
    from handleFormSubmit_Pending [OF this]
    obtain n e m b where n: "elements p (js ''name'') = Some n"
      and e: "elements p (js ''email'') = Some e"
      and m: "elements p (js ''message'') = Some m"
      and ok: "fieldOk (js ''name'') n" "fieldOk (js ''email'') e" "fieldOk (js ''message'') m"
      and p': "p' = perform (Fetch (formAction p) (FormData (validated n e m p)))
                  (perform (ButtonText (js ''Sending...''))
                     (perform (ButtonDisabled True)
                        (setElement (js ''submit-btn'')
                           (b\<lparr>disabled := True, textContent := js ''Sending...''\<rparr>)
                           (validated n e m p))))"
      by blast
    let ?q = "perform PreventDefault p"
    let ?p1 = "afterValidation (js ''name'') n ?q"
    let ?p2 = "afterValidation (js ''email'') e ?p1"
    let ?p3 = "afterValidation (js ''message'') m ?p2"
    have v1: "validateField (js ''name'') ?q = Inr (True, ?p1)"
      using n ok by (simp add: validateField_eq)
    have v2: "validateField (js ''email'') ?p1 = Inr (True, ?p2)"
      using e ok by (simp add: validateField_eq)
    have v3: "validateField (js ''message'') ?p2 = Inr (True, ?p3)"
      using m ok by (simp add: validateField_eq)
    have one: "length (filter isFetch (newEffects p p')) \<le> 1"
      by (simp add: p' newEffects_def)
    from v1 v2 v3 one h show ?thesis by auto
  next
    case False
    with h have "filter isFetch (newEffects p p') = []"
      using handleFormSubmit_not_Pending [of p c p'] by blast
    with h show ?thesis by simp
  qed
qed

lemma elements_scenarioPage:
  "elements scenarioPage (js ''name'') = Some (blankElement\<lparr>fieldValue := js ''A''\<rparr>)"
  "elements scenarioPage (js ''email'') = Some (blankElement\<lparr>fieldValue := js ''a@b.com''\<rparr>)"
  "elements scenarioPage (js ''message'') = Some (blankElement\<lparr>fieldValue := js ''Hello there!''\<rparr>)"
  "elements scenarioPage (js ''submit-btn'') = Some (blankElement\<lparr>textContent := js ''Send Message''\<rparr>)"
  "elements scenarioPage (js ''form-status'') = Some (blankElement\<lparr>classList := [js ''form-status'']\<rparr>)"
  by (simp_all add: scenarioPage_def examplePage_def)

lemma fieldOk_scenarioPage:
  "\<not> fieldOk (js ''name'') (blankElement\<lparr>fieldValue := js ''A''\<rparr>)"
  "fieldOk (js ''email'') (blankElement\<lparr>fieldValue := js ''a@b.com''\<rparr>)"
  "fieldOk (js ''message'') (blankElement\<lparr>fieldValue := js ''Hello there!''\<rparr>)"
  by (simp_all add: fieldOk_def fieldRules_def trim_def js_def isWhiteSpace_def nameRegex_def
      nameClass_def emailRegex_def emailClass_def)

theorem fetch_only_if_all_valid_witness:
  "filter isFetch (newEffects examplePage (snd (handleFormSubmit examplePage))) \<noteq> [] \<and>
   (\<exists>p1 p2 p3.
      validateField (js ''name'') (perform PreventDefault examplePage) = Inr (True, p1) \<and>
      validateField (js ''email'') p1 = Inr (True, p2) \<and>
      validateField (js ''message'') p2 = Inr (True, p3)) \<and>
   (\<exists>p1 p2 p3.
      validateField (js ''name'') (perform PreventDefault scenarioPage) = Inr (False, p1) \<and>
      validateField (js ''email'') p1 = Inr (True, p2) \<and>
      validateField (js ''message'') p2 = Inr (True, p3)) \<and>
   filter isFetch (newEffects scenarioPage (snd (handleFormSubmit scenarioPage))) = []"
proof -
  have issued: "filter isFetch (newEffects examplePage (snd (handleFormSubmit examplePage))) \<noteq> []"
    by (simp add: newEffects_examplePage)
  with fetch_only_if_all_valid [of examplePage]
  have valid: "\<exists>p1 p2 p3.
      validateField (js ''name'') (perform PreventDefault examplePage) = Inr (True, p1) \<and>
      validateField (js ''email'') p1 = Inr (True, p2) \<and>
      validateField (js ''message'') p2 = Inr (True, p3)"
    by blast
  let ?q = "perform PreventDefault scenarioPage"
  let ?p1 = "afterValidation (js ''name'') (blankElement\<lparr>fieldValue := js ''A''\<rparr>) ?q"
  let ?p2 = "afterValidation (js ''email'') (blankElement\<lparr>fieldValue := js ''a@b.com''\<rparr>) ?p1"
  let ?p3 = "afterValidation (js ''message'') (blankElement\<lparr>fieldValue := js ''Hello there!''\<rparr>) ?p2"
  have v1: "validateField (js ''name'') ?q = Inr (False, ?p1)"
    by (simp add: validateField_eq elements_scenarioPage fieldOk_scenarioPage)
  have v2: "validateField (js ''email'') ?p1 = Inr (True, ?p2)"
    by (simp add: validateField_eq elements_scenarioPage fieldOk_scenarioPage)
  have v3: "validateField (js ''message'') ?p2 = Inr (True, ?p3)"
    by (simp add: validateField_eq elements_scenarioPage fieldOk_scenarioPage)
  from fetch_only_if_all_valid [of scenarioPage] v1 v2 v3
  have blocked: "filter isFetch (newEffects scenarioPage (snd (handleFormSubmit scenarioPage))) = []"
    by blast
  from issued valid v1 v2 v3 blocked show ?thesis by blast
qed

subsection \<open>The placeholder endpoint\<close>

text \<open>
  C3: when \<open>form.action\<close> contains one of the two placeholder ids, the handler returns
  at once with the configuration error: it makes no request and validates no field
  (every element but the status region is as before), whatever the fields hold. The
  status region, when the page has one, shows the configuration error, tagged
  \<open>error\<close>.
\<close>

theorem placeholder_not_configured:
  assumes "includes_str (formAction p) (js ''YOUR_FORMSPREE_ID'') \<or> includes_str (formAction p) (js ''xyzqwvba'')"
  shows "handleFormSubmit p =
           (Returned,
            perform (ConsoleError (js ''ERROR: Formspree form ID not configured properly in index.html''))
              (showFormStatus configurationErrorMessage (js ''error'') (perform PreventDefault p))) \<and>
         filter isFetch (newEffects p (snd (handleFormSubmit p))) = [] \<and>
         (\<forall>i. i \<noteq> js ''form-status'' \<longrightarrow> elements (snd (handleFormSubmit p)) i = elements p i) \<and>
         (case elements p (js ''form-status'') of
            None \<Rightarrow> elements (snd (handleFormSubmit p)) (js ''form-status'') = None
          | Some s \<Rightarrow>
              elements (snd (handleFormSubmit p)) (js ''form-status'') =
                Some (s\<lparr>textContent := configurationErrorMessage,
                        classList := [js ''form-status'', js ''show'', js ''error'']\<rparr>))"
  using assms
  by (auto simp add: handleFormSubmit_eq newEffects_def showFormStatus_elements split: option.splits)

theorem placeholder_not_configured_witness:
  "includes_str (formAction placeholderPage) (js ''YOUR_FORMSPREE_ID'') \<and>
   fst (handleFormSubmit placeholderPage) = Returned \<and>
   filter isFetch (newEffects placeholderPage (snd (handleFormSubmit placeholderPage))) = [] \<and>
   statusMessage (snd (handleFormSubmit placeholderPage)) = Some configurationErrorMessage \<and>
   elements (snd (handleFormSubmit placeholderPage)) (js ''name'') = elements placeholderPage (js ''name'')"
proof -
  have i: "includes_str (formAction placeholderPage) (js ''YOUR_FORMSPREE_ID'')"
    by (simp add: placeholderPage_def js_def)
  have s: "elements placeholderPage (js ''form-status'') = Some (blankElement\<lparr>classList := [js ''form-status'']\<rparr>)"
    by (simp add: placeholderPage_def elements_examplePage)
  from i have "includes_str (formAction placeholderPage) (js ''YOUR_FORMSPREE_ID'') \<or>
      includes_str (formAction placeholderPage) (js ''xyzqwvba'')" by simp
  note t = placeholder_not_configured [OF this]
  from t have r: "fst (handleFormSubmit placeholderPage) = Returned" by simp
  from t have f: "filter isFetch (newEffects placeholderPage (snd (handleFormSubmit placeholderPage))) = []"
    by blast
  from t have "\<forall>i. i \<noteq> js ''form-status'' \<longrightarrow>
      elements (snd (handleFormSubmit placeholderPage)) i = elements placeholderPage i"
    by blast
  then have o: "elements (snd (handleFormSubmit placeholderPage)) (js ''name'') =
      elements placeholderPage (js ''name'')"
    by simp
  from t have "case elements placeholderPage (js ''form-status'') of
            None \<Rightarrow> elements (snd (handleFormSubmit placeholderPage)) (js ''form-status'') = None
          | Some s \<Rightarrow>
              elements (snd (handleFormSubmit placeholderPage)) (js ''form-status'') =
                Some (s\<lparr>textContent := configurationErrorMessage,
                        classList := [js ''form-status'', js ''show'', js ''error'']\<rparr>)"
    by blast
  with s have m: "statusMessage (snd (handleFormSubmit placeholderPage)) = Some configurationErrorMessage"
    by (simp add: statusMessage_def)
  from i r f o m show ?thesis by blast
qed

section \<open>The settling of the request\<close>

subsection \<open>The error messages of the then callback\<close>

text \<open>
  The message for a status other than 404 and 422 is neither of the two other
  messages, and does not contain \<open>Failed to fetch\<close>: it has no \<open>a\<close>.
\<close>

lemma startsWith_set: "startsWith s needle \<Longrightarrow> set needle \<subseteq> set s"
  by (induction s needle rule: startsWith.induct) auto

lemma includes_str_set: "includes_str s needle \<Longrightarrow> set needle \<subseteq> set s"
proof (induction s)
  case Nil
  then show ?case by simp
next
  case (Cons x xs)
  then show ?case using startsWith_set [of "x # xs" needle] by auto
qed

lemma digit_not_a: "k < 10 \<Longrightarrow> (0x30 + of_nat k :: jschar) \<noteq> 0x61"
proof -
  assume "k < 10"
  then have "k = 0 \<or> k = 1 \<or> k = 2 \<or> k = 3 \<or> k = 4 \<or> k = 5 \<or> k = 6 \<or> k = 7 \<or> k = 8 \<or> k = 9"
    by arith
  then show ?thesis by auto
qed

lemma decimal_no_a: "(0x61 :: jschar) \<notin> set (decimal n)"
proof (induction n rule: decimal.induct)
  case (1 n)
  show ?case
  proof (cases "n < 10")
    case True
    then show ?thesis using digit_not_a [of n] by (subst decimal.simps) auto
  next
    case False
    moreover have "n mod 10 < 10" by simp
    ultimately show ?thesis using 1 digit_not_a [of "n mod 10"] by (subst decimal.simps) auto
  qed
qed

lemma server_error_no_Failed_to_fetch:
  "\<not> includes_str (js ''FORMSPREE_ERROR_'' @ decimal n) (js ''Failed to fetch'')"
proof
  assume "includes_str (js ''FORMSPREE_ERROR_'' @ decimal n) (js ''Failed to fetch'')"
  then have "set (js ''Failed to fetch'') \<subseteq> set (js ''FORMSPREE_ERROR_'' @ decimal n)"
    by (rule includes_str_set)
  moreover have "(0x61 :: jschar) \<in> set (js ''Failed to fetch'')" by (simp add: js_def)
  ultimately have "(0x61 :: jschar) \<in> set (js ''FORMSPREE_ERROR_'') \<union> set (decimal n)" by auto
  then show False using decimal_no_a [of n] by (simp add: js_def)
qed

lemma server_error_not_sentinel:
  "js ''FORMSPREE_ERROR_'' @ decimal n \<noteq> js ''FORMSPREE_NOT_FOUND''"
  "js ''FORMSPREE_ERROR_'' @ decimal n \<noteq> js ''FORMSPREE_VALIDATION_ERROR''"
  by (simp_all add: js_def)

subsection \<open>The callbacks\<close>

lemma catchCallback_eq:
  "catchCallback message p =
     showFormStatus (catchMessage message) (js ''error'')
       (perform (ConsoleError (js ''Form submission error: '' @ message)) p)"
  by (simp add: catchCallback_def catchMessage_def Let_def)

lemma resetControl_simps [simp]:
  "elements (resetControl i p) = (case elements p i of None \<Rightarrow> elements p
      | Some e \<Rightarrow> (elements p)(i \<mapsto> resetElement e))"
  "formAction (resetControl i p) = formAction p"
  "ancillary (resetControl i p) = ancillary p"
  "clock (resetControl i p) = clock p"
  "timers (resetControl i p) = timers p"
  "effects (resetControl i p) = effects p"
  by (simp_all add: resetControl_def split: option.splits)

lemma formReset_simps [simp]:
  "formAction (formReset p) = formAction p"
  "ancillary (formReset p) = map (\<lambda>(k, e). (k, resetElement e)) (ancillary p)"
  "clock (formReset p) = clock p"
  "timers (formReset p) = timers p"
  "effects (formReset p) = effects p @ [FormReset]"
  by (simp_all add: formReset_def)

lemma formReset_elements:
  "elements (formReset p) i =
     (if i = js ''name'' \<or> i = js ''email'' \<or> i = js ''message''
      then map_option resetElement (elements p i) else elements p i)"
  by (auto simp add: formReset_def split: option.splits)

lemma setButton_simps [simp]:
  "elements (setButton f p) = (case elements p (js ''submit-btn'') of None \<Rightarrow> elements p
      | Some b \<Rightarrow> (elements p)(js ''submit-btn'' \<mapsto> f b))"
  "formAction (setButton f p) = formAction p"
  "ancillary (setButton f p) = ancillary p"
  "clock (setButton f p) = clock p"
  "timers (setButton f p) = timers p"
  "effects (setButton f p) = effects p"
  by (simp_all add: setButton_def split: option.splits)

lemma finallyCallback_simps [simp]:
  "formAction (finallyCallback t p) = formAction p"
  "ancillary (finallyCallback t p) = ancillary p"
  "clock (finallyCallback t p) = clock p"
  "timers (finallyCallback t p) = timers p"
  "effects (finallyCallback t p) = effects p @ [ButtonDisabled False, ButtonText t]"
  by (simp_all add: finallyCallback_def Let_def)

lemma finallyCallback_elements:
  "elements (finallyCallback t p) i =
     (if i = js ''submit-btn''
      then map_option (\<lambda>b. b\<lparr>disabled := False, textContent := t\<rparr>) (elements p i)
      else elements p i)"
  by (auto simp add: finallyCallback_def Let_def split: option.splits)

lemma settle_eq: "settle t r p = finallyCallback t (settled r p)"
  by (simp add: settle_def settled_def thenCallback_def Let_def split: settlement.splits option.splits)

lemma statusMessage_finallyCallback [simp]:
  "statusMessage (finallyCallback t p) = statusMessage p"
  by (simp add: statusMessage_def finallyCallback_elements)

lemma statusMessage_showFormStatus:
  "elements p (js ''form-status'') \<noteq> None \<Longrightarrow> statusMessage (showFormStatus m ty p) = Some m"
  by (auto simp add: statusMessage_def showFormStatus_elements)

lemma statusMessage_catchCallback:
  "elements p (js ''form-status'') \<noteq> None \<Longrightarrow> statusMessage (catchCallback m p) = Some (catchMessage m)"
  by (simp add: catchCallback_eq statusMessage_showFormStatus)

lemma catchMessage_server_error [simp]: "catchMessage (js ''FORMSPREE_ERROR_'' @ decimal n) = failedMessage"
  using server_error_not_sentinel [of n] server_error_no_Failed_to_fetch [of n]
  by (simp add: catchMessage_def del: js_append)

lemma catchMessage_sentinels [simp]:
  "catchMessage (js ''FORMSPREE_NOT_FOUND'') = notFoundMessage"
  "catchMessage (js ''FORMSPREE_VALIDATION_ERROR'') = validationErrorMessage"
  by (simp_all add: catchMessage_def)

lemma formReset_status [simp]:
  "elements (formReset p) (js ''form-status'') = elements p (js ''form-status'')"
  by (simp add: formReset_elements)

lemma statusMessage_perform [simp]: "statusMessage (perform x p) = statusMessage p"
  by (simp add: statusMessage_def)

lemma statusMessage_formReset [simp]: "statusMessage (formReset p) = statusMessage p"
  by (simp add: statusMessage_def)

lemma statusMessage_settled_response:
  assumes "elements p (js ''form-status'') \<noteq> None"
    and "200 \<le> status \<and> status \<le> 299 \<longrightarrow> jsonError = None"
  shows "statusMessage (settled (Response status jsonError) p) =
           Some (if 200 \<le> status \<and> status \<le> 299 then successMessage
                 else if status = 404 then notFoundMessage
                 else if status = 422 then validationErrorMessage
                 else failedMessage)"
  using assms
  by (auto simp add: settled_def statusMessage_catchCallback statusMessage_showFormStatus)

lemma statusMessage_settled_no_response:
  assumes "elements p (js ''form-status'') \<noteq> None"
  shows "statusMessage (settled (NoResponse message) p) = Some (catchMessage message)"
  using assms by (simp add: settled_def statusMessage_catchCallback)

lemma newEffects_append [simp]: "effects p' = effects p @ xs \<Longrightarrow> newEffects p p' = xs"
  by (simp add: newEffects_def)

lemma catchCallback_simps [simp]:
  "formAction (catchCallback m p) = formAction p"
  "ancillary (catchCallback m p) = ancillary p"
  "clock (catchCallback m p) = clock p"
  "effects (catchCallback m p) = effects p @ [ConsoleError (js ''Form submission error: '' @ m)]"
  by (simp_all add: catchCallback_eq)

lemma catchCallback_elements_other:
  "i \<noteq> js ''form-status'' \<Longrightarrow> elements (catchCallback m p) i = elements p i"
  by (simp add: catchCallback_eq)

lemma catchCallback_fieldValue [simp]:
  "map_option fieldValue (elements (catchCallback m p) i) = map_option fieldValue (elements p i)"
  "map_option defaultValue (elements (catchCallback m p) i) = map_option defaultValue (elements p i)"
  by (simp_all add: catchCallback_eq)

lemma finallyCallback_fieldValue [simp]:
  "map_option fieldValue (elements (finallyCallback t p) i) = map_option fieldValue (elements p i)"
  "map_option defaultValue (elements (finallyCallback t p) i) = map_option defaultValue (elements p i)"
  by (simp_all add: finallyCallback_elements option.map_comp o_def)

text \<open>The calls made while a request settles, before the finally callback.\<close>

lemma settled_effects:
  "\<exists>xs. effects (settled r p) = effects p @ xs \<and> filter isButtonWrite xs = [] \<and>
        filter isFetch xs = [] \<and>
        count_list xs FormReset = (if classify r = Success then 1 else 0)"
proof (cases r)
  case (Response status jsonError)
  then show ?thesis by (cases jsonError) (simp_all add: settled_def)
next
  case (NoResponse message)
  then show ?thesis by (simp add: settled_def)
qed

lemma settled_ancillary:
  "ancillary (settled r p) =
     (if classify r = Success then map (\<lambda>(k, e). (k, resetElement e)) (ancillary p) else ancillary p)"
proof (cases r)
  case (Response status jsonError)
  then show ?thesis by (cases jsonError) (simp_all add: settled_def)
next
  case (NoResponse message)
  then show ?thesis by (simp add: settled_def)
qed

lemma settled_fieldValue_failure:
  "classify r \<noteq> Success \<Longrightarrow>
   map_option fieldValue (elements (settled r p) i) = map_option fieldValue (elements p i)"
proof (cases r)
  case (Response status jsonError)
  moreover assume "classify r \<noteq> Success"
  ultimately show ?thesis by (auto simp add: settled_def split: if_splits)
next
  case (NoResponse message)
  then show ?thesis by (simp add: settled_def)
qed

lemma formReset_fieldValue:
  "map_option fieldValue (elements (formReset p) i) =
     (if i = js ''name'' \<or> i = js ''email'' \<or> i = js ''message''
      then map_option defaultValue (elements p i) else map_option fieldValue (elements p i))"
  by (cases "elements p i") (simp_all add: formReset_elements resetElement_def)

lemma settled_fieldValue_success:
  "classify r = Success \<Longrightarrow>
   map_option fieldValue (elements (settled r p) i) =
     (if i = js ''name'' \<or> i = js ''email'' \<or> i = js ''message''
      then map_option defaultValue (elements p i) else map_option fieldValue (elements p i))"
proof (cases r)
  case (Response status jsonError)
  moreover assume "classify r = Success"
  ultimately show ?thesis
    by (cases jsonError) (simp_all add: settled_def formReset_fieldValue split: if_splits)
next
  case (NoResponse message)
  moreover assume "classify r = Success"
  ultimately show ?thesis by simp
qed

lemma settled_button:
  "elements (settled r p) (js ''submit-btn'') = elements p (js ''submit-btn'')"
proof (cases r)
  case (Response status jsonError)
  then show ?thesis
    by (cases jsonError)
      (simp_all add: settled_def catchCallback_elements_other formReset_elements)
next
  case (NoResponse message)
  then show ?thesis by (simp add: settled_def catchCallback_elements_other)
qed

section \<open>A submit attempt\<close>

lemma submitAttempt_Pending:
  "handleFormSubmit p = (Pending t, p1) \<Longrightarrow> submitAttempt r p = finallyCallback t (settled r p1)"
  by (simp add: submitAttempt_def settle_eq)

lemma submitAttempt_not_Pending:
  "handleFormSubmit p = (c, p1) \<Longrightarrow> \<forall>t. c \<noteq> Pending t \<Longrightarrow> submitAttempt r p = p1"
  by (cases c) (simp_all add: submitAttempt_def)

text \<open>The page a handler run leaves when it has issued the request.\<close>

lemma handleFormSubmit_Pending_page:
  assumes "handleFormSubmit p = (Pending t, p1)"
  shows "\<exists>n e m b.
           elements p (js ''name'') = Some n \<and> elements p (js ''email'') = Some e \<and>
           elements p (js ''message'') = Some m \<and> elements p (js ''submit-btn'') = Some b \<and>
           fieldOk (js ''name'') n \<and> fieldOk (js ''email'') e \<and> fieldOk (js ''message'') m \<and>
           t = textContent b \<and>
           elements p1 (js ''submit-btn'') = Some (b\<lparr>disabled := True, textContent := js ''Sending...''\<rparr>) \<and>
           effects p1 = effects p @
             [PreventDefault, ButtonDisabled True, ButtonText (js ''Sending...''),
              Fetch (formAction p)
                ([(js ''name'', fieldValue n), (js ''email'', fieldValue e), (js ''message'', fieldValue m)] @
                 map (\<lambda>(k, c). (k, fieldValue c)) (ancillary p))] \<and>
           ancillary p1 = ancillary p \<and>
           (\<forall>i. map_option fieldValue (elements p1 i) = map_option fieldValue (elements p i)) \<and>
           (\<forall>i. map_option defaultValue (elements p1 i) = map_option defaultValue (elements p i))"
proof -
  from handleFormSubmit_Pending [OF assms]
  obtain n e m b where n: "elements p (js ''name'') = Some n"
    and e: "elements p (js ''email'') = Some e"
    and m: "elements p (js ''message'') = Some m"
    and b: "elements p (js ''submit-btn'') = Some b"
    and ok: "fieldOk (js ''name'') n" "fieldOk (js ''email'') e" "fieldOk (js ''message'') m"
    and t: "t = textContent b"
    and p1: "p1 = perform (Fetch (formAction p) (FormData (validated n e m p)))
                  (perform (ButtonText (js ''Sending...''))
                     (perform (ButtonDisabled True)
                        (setElement (js ''submit-btn'')
                           (b\<lparr>disabled := True, textContent := js ''Sending...''\<rparr>)
                           (validated n e m p))))"
    by blast
  have btn: "elements p1 (js ''submit-btn'') = Some (b\<lparr>disabled := True, textContent := js ''Sending...''\<rparr>)"
    by (simp add: p1)
  have eff: "effects p1 = effects p @
             [PreventDefault, ButtonDisabled True, ButtonText (js ''Sending...''),
              Fetch (formAction p)
                ([(js ''name'', fieldValue n), (js ''email'', fieldValue e), (js ''message'', fieldValue m)] @
                 map (\<lambda>(k, c). (k, fieldValue c)) (ancillary p))]"
    by (simp add: p1 FormData_validated [OF n e m])
  have anc: "ancillary p1 = ancillary p" by (simp add: p1)
  have fv: "map_option fieldValue (elements p1 i) = map_option fieldValue (elements p i)" for i
  proof (cases "i = js ''submit-btn''")
    case True
    then show ?thesis using b by (simp add: p1)
  next
    case False
    then show ?thesis using validated_fieldValue [OF n e m, of i] by (simp add: p1)
  qed
  have dv: "map_option defaultValue (elements p1 i) = map_option defaultValue (elements p i)" for i
  proof (cases "i = js ''submit-btn''")
    case True
    then show ?thesis using b by (simp add: p1)
  next
    case False
    then show ?thesis using validated_defaultValue [OF n e m, of i] by (simp add: p1)
  qed
  from n e m b ok t btn eff anc fv dv show ?thesis by blast
qed

subsection \<open>The reset of the form\<close>

text \<open>
  C5: in a submit attempt \<open>form.reset()\<close> is called once if the request was issued and
  answered with a 2xx status, and not at all otherwise. After the reset the three
  fields hold their default values (and so does every other control of the form);
  in every other attempt (configuration error, validation failure, exception, 404,
  422, any other status, transport failure) every value is as before the attempt.
\<close>

theorem form_reset_iff_success:
  "count_list (newEffects p (submitAttempt r p)) FormReset =
     (if (\<exists>t. fst (handleFormSubmit p) = Pending t) \<and> classify r = Success then 1 else 0) \<and>
   ((\<exists>t. fst (handleFormSubmit p) = Pending t) \<and> classify r = Success \<longrightarrow>
      (\<forall>i. map_option fieldValue (elements (submitAttempt r p) i) =
            (if i = js ''name'' \<or> i = js ''email'' \<or> i = js ''message''
             then map_option defaultValue (elements p i)
             else map_option fieldValue (elements p i))) \<and>
      ancillary (submitAttempt r p) = map (\<lambda>(k, e). (k, resetElement e)) (ancillary p)) \<and>
   (\<not> ((\<exists>t. fst (handleFormSubmit p) = Pending t) \<and> classify r = Success) \<longrightarrow>
      (\<forall>i. map_option fieldValue (elements (submitAttempt r p) i) =
            map_option fieldValue (elements p i)) \<and>
      ancillary (submitAttempt r p) = ancillary p)"
proof -
  obtain c p1 where h: "handleFormSubmit p = (c, p1)" by (cases "handleFormSubmit p")
  show ?thesis
  proof (cases "\<exists>t. c = Pending t")
    case True
    then obtain t where c: "c = Pending t" by blast
    with h have ht: "handleFormSubmit p = (Pending t, p1)" by simp
    from handleFormSubmit_Pending_page [OF ht]
    obtain xs where eff: "effects p1 = effects p @ xs" and xs: "count_list xs FormReset = 0"
      and anc: "ancillary p1 = ancillary p"
      and fv: "\<And>i. map_option fieldValue (elements p1 i) = map_option fieldValue (elements p i)"
      and dv: "\<And>i. map_option defaultValue (elements p1 i) = map_option defaultValue (elements p i)"
      by auto
    from settled_effects [of r p1]
    obtain ys where ys: "effects (settled r p1) = effects p1 @ ys"
      and cnt: "count_list ys FormReset = (if classify r = Success then 1 else 0)"
      by blast
    have a: "submitAttempt r p = finallyCallback t (settled r p1)"
      using ht by (rule submitAttempt_Pending)
    have "effects (submitAttempt r p) = effects p @ (xs @ ys @ [ButtonDisabled False, ButtonText t])"
      by (simp add: a ys eff)
    then have n: "newEffects p (submitAttempt r p) = xs @ ys @ [ButtonDisabled False, ButtonText t]"
      by (rule newEffects_append)
    have count: "count_list (newEffects p (submitAttempt r p)) FormReset =
        (if classify r = Success then 1 else 0)"
      by (simp add: n xs cnt)
    have anc': "ancillary (submitAttempt r p) =
        (if classify r = Success then map (\<lambda>(k, e). (k, resetElement e)) (ancillary p) else ancillary p)"
      by (simp add: a settled_ancillary anc)
    have ok: "classify r = Success \<Longrightarrow>
        map_option fieldValue (elements (submitAttempt r p) i) =
            (if i = js ''name'' \<or> i = js ''email'' \<or> i = js ''message''
             then map_option defaultValue (elements p i)
             else map_option fieldValue (elements p i))" for i
      by (simp add: a settled_fieldValue_success fv dv)
    have ko: "classify r \<noteq> Success \<Longrightarrow>
        map_option fieldValue (elements (submitAttempt r p) i) = map_option fieldValue (elements p i)" for i
      by (simp add: a settled_fieldValue_failure fv)
    have p: "\<exists>t. fst (handleFormSubmit p) = Pending t" using ht by simp
    show ?thesis
    proof (cases "classify r = Success")
      case True
      with p count anc' ok show ?thesis by simp
    next
      case False
      with p count anc' ko show ?thesis by simp
    qed
  next
    case False
    then have np: "\<forall>t. c \<noteq> Pending t" by blast
    from handleFormSubmit_not_Pending [OF h np]
    have nr: "FormReset \<notin> set (newEffects p p1)" and anc: "ancillary p1 = ancillary p"
      and fv: "\<And>i. map_option fieldValue (elements p1 i) = map_option fieldValue (elements p i)"
      by auto
    have a: "submitAttempt r p = p1" using h np by (rule submitAttempt_not_Pending)
    have "\<not> (\<exists>t. fst (handleFormSubmit p) = Pending t)" using h np by simp
    moreover have "count_list (newEffects p p1) FormReset = 0" using nr by (simp add: count_list_0_iff)
    ultimately show ?thesis using a anc fv by simp
  qed
qed

theorem form_reset_iff_success_witness:
  "(\<exists>t. fst (handleFormSubmit examplePage) = Pending t) \<and>
   classify (Response 200 None) = Success \<and>
   count_list (newEffects examplePage (submitAttempt (Response 200 None) examplePage)) FormReset = 1 \<and>
   map_option fieldValue (elements (submitAttempt (Response 200 None) examplePage) (js ''name'')) = Some [] \<and>
   classify (Response 404 None) \<noteq> Success \<and>
   count_list (newEffects examplePage (submitAttempt (Response 404 None) examplePage)) FormReset = 0 \<and>
   map_option fieldValue (elements (submitAttempt (Response 404 None) examplePage) (js ''name'')) =
     Some (js ''Jane Doe'')"
proof -
  have p: "\<exists>t. fst (handleFormSubmit examplePage) = Pending t"
    by (simp add: handleFormSubmit_examplePage)
  have ok: "classify (Response 200 None) = Success" by simp
  have ko: "classify (Response 404 None) \<noteq> Success" by simp
  have n: "elements examplePage (js ''name'') = Some (blankElement\<lparr>fieldValue := js ''Jane Doe''\<rparr>)"
    by (rule elements_examplePage)
  note a = form_reset_iff_success [of examplePage "Response 200 None"]
  note b = form_reset_iff_success [of examplePage "Response 404 None"]
  from a p ok have a1:
    "count_list (newEffects examplePage (submitAttempt (Response 200 None) examplePage)) FormReset = 1"
    by simp
  from a p ok have "\<forall>i. map_option fieldValue (elements (submitAttempt (Response 200 None) examplePage) i) =
            (if i = js ''name'' \<or> i = js ''email'' \<or> i = js ''message''
             then map_option defaultValue (elements examplePage i)
             else map_option fieldValue (elements examplePage i))"
    by blast
  then have a2: "map_option fieldValue (elements (submitAttempt (Response 200 None) examplePage) (js ''name'')) =
      Some []"
    by (simp add: n blankElement_def)
  from b p ko have b1:
    "count_list (newEffects examplePage (submitAttempt (Response 404 None) examplePage)) FormReset = 0"
    by simp
  from b ko have "\<forall>i. map_option fieldValue (elements (submitAttempt (Response 404 None) examplePage) i) =
            map_option fieldValue (elements examplePage i)"
    by blast
  then have b2: "map_option fieldValue (elements (submitAttempt (Response 404 None) examplePage) (js ''name'')) =
      Some (js ''Jane Doe'')"
    by (simp add: n)
  from p ok a1 a2 ko b1 b2 show ?thesis by blast
qed

section \<open>The timer of the status region\<close>

lemma hideStatus_simps [simp]:
  "formAction (hideStatus p) = formAction p"
  "ancillary (hideStatus p) = ancillary p"
  "clock (hideStatus p) = clock p"
  "timers (hideStatus p) = timers p"
  "effects (hideStatus p) = effects p"
  by (simp_all add: hideStatus_def split: option.splits)

lemma hideStatus_elements:
  "elements (hideStatus p) i =
     (if i = js ''form-status'' then map_option (classList_remove (js ''show'')) (elements p i)
      else elements p i)"
  by (simp add: hideStatus_def split: option.splits)

lemma fold_hideStatus_simps [simp]:
  "formAction (fold (\<lambda>d. hideStatus) ds p) = formAction p"
  "ancillary (fold (\<lambda>d. hideStatus) ds p) = ancillary p"
  "effects (fold (\<lambda>d. hideStatus) ds p) = effects p"
  by (induction ds arbitrary: p; simp)+

lemma classList_remove_idem [simp]:
  "classList_remove t (classList_remove t e) = classList_remove t e"
  by (simp add: classList_remove_def)

lemma fold_hideStatus_elements:
  "elements (fold (\<lambda>d. hideStatus) ds p) i =
     (if i = js ''form-status'' \<and> ds \<noteq> []
      then map_option (classList_remove (js ''show'')) (elements p i)
      else elements p i)"
proof (induction ds arbitrary: p)
  case Nil
  then show ?case by simp
next
  case (Cons d ds)
  show ?case
    by (simp add: Cons.IH hideStatus_elements option.map_comp o_def)
qed

lemma advance_simps [simp]:
  "formAction (advance dt p) = formAction p"
  "ancillary (advance dt p) = ancillary p"
  "effects (advance dt p) = effects p"
  "clock (advance dt p) = clock p + dt"
  "timers (advance dt p) = filter (\<lambda>d. \<not> d \<le> clock p + dt) (timers p)"
  by (simp_all add: advance_def Let_def)

lemma advance_elements:
  "elements (advance dt p) i =
     (if i = js ''form-status'' \<and> filter (\<lambda>d. d \<le> clock p + dt) (timers p) \<noteq> []
      then map_option (classList_remove (js ''show'')) (elements p i)
      else elements p i)"
  by (simp add: advance_def Let_def fold_hideStatus_elements)

lemma advance_elements_other [simp]:
  "i \<noteq> js ''form-status'' \<Longrightarrow> elements (advance dt p) i = elements p i"
  by (simp add: advance_elements)

lemma statusMessage_advance [simp]: "statusMessage (advance dt p) = statusMessage p"
  by (simp add: statusMessage_def advance_elements option.map_comp o_def classList_remove_def)

lemma statusClasses_advance:
  "statusClasses (advance dt p) =
     (if filter (\<lambda>d. d \<le> clock p + dt) (timers p) \<noteq> []
      then map_option (removeAll (js ''show'')) (statusClasses p) else statusClasses p)"
  by (simp add: statusClasses_def advance_elements option.map_comp o_def classList_remove_def)

lemma statusClasses_showFormStatus:
  "statusClasses (showFormStatus m ty p) =
     map_option (\<lambda>s. [js ''form-status'', js ''show'', ty]) (elements p (js ''form-status''))"
  by (simp add: statusClasses_def showFormStatus_elements option.map_comp o_def)

lemma settled_clock_timers:
  "clock (settled r p) = clock p"
  "timers (settled r p) =
     (if classify r = Success \<and> elements p (js ''form-status'') \<noteq> None
      then timers p @ [clock p + 4000] else timers p)"
proof -
  show "clock (settled r p) = clock p"
  proof (cases r)
    case (Response status jsonError)
    then show ?thesis by (cases jsonError) (simp_all add: settled_def)
  next
    case (NoResponse message)
    then show ?thesis by (simp add: settled_def)
  qed
  show "timers (settled r p) =
     (if classify r = Success \<and> elements p (js ''form-status'') \<noteq> None
      then timers p @ [clock p + 4000] else timers p)"
  proof (cases r)
    case (Response status jsonError)
    then show ?thesis
      by (cases jsonError) (simp_all add: settled_def catchCallback_eq)
  next
    case (NoResponse message)
    then show ?thesis by (simp add: settled_def catchCallback_eq)
  qed
qed

lemma handleFormSubmit_Pending_frame:
  assumes "handleFormSubmit p = (Pending t, p1)"
  shows "formAction p1 = formAction p \<and> clock p1 = clock p \<and> timers p1 = timers p \<and>
         elements p1 (js ''form-status'') = elements p (js ''form-status'')"
proof -
  from handleFormSubmit_Pending [OF assms]
  obtain n e m b where
    "p1 = perform (Fetch (formAction p) (FormData (validated n e m p)))
                  (perform (ButtonText (js ''Sending...''))
                     (perform (ButtonDisabled True)
                        (setElement (js ''submit-btn'')
                           (b\<lparr>disabled := True, textContent := js ''Sending...''\<rparr>)
                           (validated n e m p))))"
    by blast
  then show ?thesis by simp
qed

lemma settled_formAction [simp]: "formAction (settled r p) = formAction p"
proof (cases r)
  case (Response status jsonError)
  then show ?thesis by (cases jsonError) (simp_all add: settled_def)
next
  case (NoResponse message)
  then show ?thesis by (simp add: settled_def)
qed

lemma catchCallback_status_exists:
  "(elements (catchCallback m p) (js ''form-status'') = None) = (elements p (js ''form-status'') = None)"
  by (simp add: catchCallback_eq showFormStatus_elements)

lemma settled_status_exists:
  "(elements (settled r p) (js ''form-status'') = None) = (elements p (js ''form-status'') = None)"
proof (cases r)
  case (Response status jsonError)
  then show ?thesis
    by (cases jsonError)
       (simp_all add: settled_def catchCallback_status_exists showFormStatus_elements)
next
  case (NoResponse message)
  then show ?thesis by (simp add: settled_def catchCallback_status_exists)
qed

lemma fieldOk_empty: "fieldValue n = [] \<Longrightarrow> \<not> fieldOk (js ''name'') n"
  by (simp add: fieldOk_def fieldRules_def trim_def)

text \<open>A handler run on a configured page whose name field is empty.\<close>

lemma handleFormSubmit_empty_name:
  assumes "\<not> includes_str (formAction p) (js ''YOUR_FORMSPREE_ID'')"
    and "\<not> includes_str (formAction p) (js ''xyzqwvba'')"
    and "map_option fieldValue (elements p (js ''name'')) = Some []"
    and "elements p (js ''email'') \<noteq> None" and "elements p (js ''message'') \<noteq> None"
  shows "\<exists>n e m. handleFormSubmit p =
           (Returned, showFormStatus fixErrorsMessage (js ''error'') (validated n e m p))"
proof -
  from assms(3) obtain n where n: "elements p (js ''name'') = Some n" and v: "fieldValue n = []"
    by auto
  from assms(4) obtain e where e: "elements p (js ''email'') = Some e" by auto
  from assms(5) obtain m where m: "elements p (js ''message'') = Some m" by auto
  from v have "\<not> fieldOk (js ''name'') n" by (rule fieldOk_empty)
  with assms(1,2) n e m
  have "handleFormSubmit p =
           (Returned, showFormStatus fixErrorsMessage (js ''error'') (validated n e m p))"
    by (simp add: handleFormSubmit_eq)
  then show ?thesis by blast
qed

text \<open>
  A submission that succeeds on a page without pending timers, then after \<open>dt1\<close>
  milliseconds a second run of the handler on the form that the first attempt has
  reset, then \<open>dt2\<close> more milliseconds.
\<close>

lemma stale_timer:
  assumes h: "handleFormSubmit p = (Pending t, p1)"
    and r: "classify r = Success"
    and s: "elements p (js ''form-status'') \<noteq> None"
    and d: "map_option defaultValue (elements p (js ''name'')) = Some []"
    and ti: "timers p = []"
  shows "statusMessage (advance dt2 (snd (handleFormSubmit (advance dt1 (submitAttempt r p))))) =
           Some fixErrorsMessage \<and>
         statusClasses (advance dt2 (snd (handleFormSubmit (advance dt1 (submitAttempt r p))))) =
           (if dt1 < 4000 \<and> 4000 \<le> dt1 + dt2 then Some [js ''form-status'', js ''error'']
            else Some [js ''form-status'', js ''show'', js ''error''])"
proof -
  let ?pA = "submitAttempt r p"
  let ?pB = "advance dt1 ?pA"
  from handleFormSubmit_Pending_page [OF h]
  obtain e m where e: "elements p (js ''email'') = Some e" and m: "elements p (js ''message'') = Some m"
    and fv: "\<And>i. map_option fieldValue (elements p1 i) = map_option fieldValue (elements p i)"
    and dv: "\<And>i. map_option defaultValue (elements p1 i) = map_option defaultValue (elements p i)"
    by blast
  from handleFormSubmit_Pending [OF h]
  have np: "\<not> includes_str (formAction p) (js ''YOUR_FORMSPREE_ID'')"
    "\<not> includes_str (formAction p) (js ''xyzqwvba'')" by blast+
  note fr = handleFormSubmit_Pending_frame [OF h]
  have a: "?pA = finallyCallback t (settled r p1)" using h by (rule submitAttempt_Pending)
  have actA: "formAction ?pA = formAction p"
    using fr by (simp add: a)
  have clockA: "clock ?pA = clock p" using fr by (simp add: a settled_clock_timers)
  have timersA: "timers ?pA = [clock p + 4000]"
    using fr r s ti by (simp add: a settled_clock_timers)
  have nameA: "map_option fieldValue (elements ?pA (js ''name'')) = Some []"
    using r d by (simp add: a settled_fieldValue_success dv)
  have "map_option fieldValue (elements ?pA (js ''email'')) \<noteq> None"
    using r e by (simp add: a settled_fieldValue_success dv)
  then have emailA: "elements ?pA (js ''email'') \<noteq> None" by auto
  have "map_option fieldValue (elements ?pA (js ''message'')) \<noteq> None"
    using r m by (simp add: a settled_fieldValue_success dv)
  then have messageA: "elements ?pA (js ''message'') \<noteq> None" by auto
  have statusA: "elements ?pA (js ''form-status'') \<noteq> None"
    using s fr by (simp add: a finallyCallback_elements settled_status_exists)
  have "\<exists>n' e' m'. handleFormSubmit ?pB =
           (Returned, showFormStatus fixErrorsMessage (js ''error'') (validated n' e' m' ?pB))"
    using np nameA emailA messageA
    by (intro handleFormSubmit_empty_name) (simp_all add: actA)
  then obtain n' e' m' where
    hB: "handleFormSubmit ?pB =
           (Returned, showFormStatus fixErrorsMessage (js ''error'') (validated n' e' m' ?pB))"
    by blast
  let ?pC = "showFormStatus fixErrorsMessage (js ''error'') (validated n' e' m' ?pB)"
  have c: "snd (handleFormSubmit ?pB) = ?pC" using hB by simp
  have statusB: "elements (validated n' e' m' ?pB) (js ''form-status'') \<noteq> None"
    using statusA by (simp add: advance_elements)
  have msgC: "statusMessage ?pC = Some fixErrorsMessage"
    using statusB by (rule statusMessage_showFormStatus)
  have clsC: "statusClasses ?pC = Some [js ''form-status'', js ''show'', js ''error'']"
    using statusB by (auto simp add: statusClasses_showFormStatus)
  have clockC: "clock ?pC = clock p + dt1" by (simp add: clockA)
  have timersC: "timers ?pC = (if dt1 < 4000 then [clock p + 4000] else [])"
    by (simp add: timersA clockA)
  have due: "(filter (\<lambda>d. d \<le> clock ?pC + dt2) (timers ?pC) \<noteq> []) = (dt1 < 4000 \<and> \<not> dt1 + dt2 < 4000)"
    unfolding clockC timersC by auto
  have "statusClasses (advance dt2 ?pC) =
      (if dt1 < 4000 \<and> \<not> dt1 + dt2 < 4000 then Some [js ''form-status'', js ''error'']
       else Some [js ''form-status'', js ''show'', js ''error''])"
    unfolding statusClasses_advance due clsC by simp
  then show ?thesis using msgC by (simp add: c not_less)
qed

text \<open>
  C8: the timer that showFormStatus sets for a success message is never cancelled,
  and its callback hides the status region whatever it shows by then. On the sample
  page: a submission succeeds at time 0; at 1000 ms the user submits the form again,
  now empty, and the validation error is shown; it is still shown at 3999 ms and is
  hidden at 4000 ms, with no further attempt. So an error message does not always
  persist until the next attempt.
\<close>

theorem stale_timer_hides_error_message:
  "statusClasses (advance 2999 (snd (handleFormSubmit (advance 1000
      (submitAttempt (Response 200 None) examplePage))))) =
     Some [js ''form-status'', js ''show'', js ''error''] \<and>
   statusClasses (advance 3000 (snd (handleFormSubmit (advance 1000
      (submitAttempt (Response 200 None) examplePage))))) =
     Some [js ''form-status'', js ''error''] \<and>
   statusMessage (advance 3000 (snd (handleFormSubmit (advance 1000
      (submitAttempt (Response 200 None) examplePage))))) =
     Some fixErrorsMessage"
proof -
  have r: "classify (Response 200 None) = Success" by simp
  have s: "elements examplePage (js ''form-status'') \<noteq> None" by (simp add: elements_examplePage)
  have d: "map_option defaultValue (elements examplePage (js ''name'')) = Some []"
    by (simp add: elements_examplePage blankElement_def)
  have ti: "timers examplePage = []" by (simp add: examplePage_def)
  note st = stale_timer [OF handleFormSubmit_examplePage r s d ti, of _ 1000]
  from st [of 2999] st [of 3000] show ?thesis by simp
qed

theorem stale_timer_hides_error_message_witness:
  "statusClasses (advance 3000 (snd (handleFormSubmit (advance 1000
      (submitAttempt (Response 200 None) examplePage))))) \<noteq>
     Some [js ''form-status'', js ''show'', js ''error'']"
  using stale_timer_hides_error_message by simp

section \<open>The status message of each outcome\<close>

text \<open>
  C4, as amended: a request that settles is classified by the status of its response
  as Success (2xx), NotFound (404), RejectedByServer (422) or ServerError (any other
  status), and as NetworkFailure when there is no response. With a status region on
  the page, Success with a body that parses ends with the success message; NotFound
  and RejectedByServer end with their own messages and ServerError, for every status,
  with the general failure message, the console line carrying the status, all three
  whatever the body of the response is. A NetworkFailure ends with the network-error
  message when the text of the transport error contains \<open>Failed to fetch\<close>, and with
  the general failure message otherwise.
\<close>

theorem settle_status_message:
  assumes "elements p (js ''form-status'') \<noteq> None"
    and "(r = Response status jsonError \<and>
          (200 \<le> status \<and> status \<le> 299 \<longrightarrow> jsonError = None)) \<or>
         (r = NoResponse message \<and> message \<noteq> js ''FORMSPREE_NOT_FOUND'' \<and>
          message \<noteq> js ''FORMSPREE_VALIDATION_ERROR'')"
  shows "statusMessage (settle t r p) =
           Some (case classify r of
                   Success \<Rightarrow> successMessage
                 | NotFound \<Rightarrow> notFoundMessage
                 | RejectedByServer \<Rightarrow> validationErrorMessage
                 | ServerError n \<Rightarrow> failedMessage
                 | NetworkFailure \<Rightarrow>
                     if includes_str message (js ''Failed to fetch'') then networkErrorMessage
                     else failedMessage) \<and>
         (\<forall>n. classify r = ServerError n \<longrightarrow>
            newEffects p (settle t r p) =
              [ConsoleError (js ''Form submission error: '' @ js ''FORMSPREE_ERROR_'' @ decimal n),
               ButtonDisabled False, ButtonText t])"
proof -
  from assms(2) show ?thesis
  proof
    assume "r = Response status jsonError \<and>
          (200 \<le> status \<and> status \<le> 299 \<longrightarrow> jsonError = None)"
    then have r: "r = Response status jsonError"
      and j: "200 \<le> status \<and> status \<le> 299 \<longrightarrow> jsonError = None"
      by simp_all
    have "\<forall>n. classify r = ServerError n \<longrightarrow>
            newEffects p (settle t r p) =
              [ConsoleError (js ''Form submission error: '' @ js ''FORMSPREE_ERROR_'' @ decimal n),
               ButtonDisabled False, ButtonText t]"
      by (auto simp add: r settle_eq settled_def newEffects_def simp del: js_append split: if_splits)
    then show ?thesis
      using statusMessage_settled_response [OF assms(1) j] r by (simp add: settle_eq)
  next
    assume "r = NoResponse message \<and> message \<noteq> js ''FORMSPREE_NOT_FOUND'' \<and>
          message \<noteq> js ''FORMSPREE_VALIDATION_ERROR''"
    then show ?thesis
      using statusMessage_settled_no_response [OF assms(1), of message]
      by (simp add: settle_eq catchMessage_def)
  qed
qed

lemma catchMessage_examples:
  "catchMessage (js ''Failed to fetch'') = networkErrorMessage"
  "catchMessage (js ''Load failed'') = failedMessage"
  by (simp_all add: catchMessage_def) (simp_all add: js_def)

lemma messages_differ: "networkErrorMessage \<noteq> failedMessage"
  by (simp add: networkErrorMessage_def failedMessage_def)

theorem settle_status_message_witness:
  "elements examplePage (js ''form-status'') \<noteq> None \<and>
   statusMessage (settle (js ''Send Message'') (Response 200 None) examplePage) = Some successMessage \<and>
   statusMessage (settle (js ''Send Message'') (Response 404 (Some (js ''Unexpected token'')))
      examplePage) = Some notFoundMessage \<and>
   statusMessage (settle (js ''Send Message'') (Response 422 None) examplePage) =
     Some validationErrorMessage \<and>
   statusMessage (settle (js ''Send Message'') (Response 500 (Some (js ''Unexpected token'')))
      examplePage) = Some failedMessage \<and>
   newEffects examplePage
      (settle (js ''Send Message'') (Response 500 (Some (js ''Unexpected token''))) examplePage) =
     [ConsoleError (js ''Form submission error: FORMSPREE_ERROR_500''),
      ButtonDisabled False, ButtonText (js ''Send Message'')] \<and>
   js ''Load failed'' \<noteq> js ''FORMSPREE_NOT_FOUND'' \<and>
   js ''Load failed'' \<noteq> js ''FORMSPREE_VALIDATION_ERROR'' \<and>
   statusMessage (settle (js ''Send Message'') (NoResponse (js ''Load failed'')) examplePage) =
     Some failedMessage"
proof -
  have s: "elements examplePage (js ''form-status'') \<noteq> None" by (simp add: elements_examplePage)
  have l: "\<not> includes_str (js ''Load failed'') (js ''Failed to fetch'')" by (simp add: js_def)
  have d: "decimal 500 = js ''500''" by (simp add: decimal.simps js_def)
  have ok: "statusMessage (settle (js ''Send Message'') (Response 200 None) examplePage) =
      Some successMessage"
    using settle_status_message [OF s, where r = "Response 200 None" and status = 200
        and jsonError = None and t = "js ''Send Message''"]
    by simp
  have a: "statusMessage (settle (js ''Send Message'') (Response 404 (Some (js ''Unexpected token'')))
      examplePage) = Some notFoundMessage"
    using settle_status_message [OF s, where r = "Response 404 (Some (js ''Unexpected token''))"
        and status = 404 and jsonError = "Some (js ''Unexpected token'')" and t = "js ''Send Message''"]
    by simp
  have v: "statusMessage (settle (js ''Send Message'') (Response 422 None) examplePage) =
      Some validationErrorMessage"
    using settle_status_message [OF s, where r = "Response 422 None" and status = 422
        and jsonError = None and t = "js ''Send Message''"]
    by simp
  have b: "statusMessage (settle (js ''Send Message'') (Response 500 (Some (js ''Unexpected token'')))
      examplePage) = Some failedMessage \<and>
    newEffects examplePage
      (settle (js ''Send Message'') (Response 500 (Some (js ''Unexpected token''))) examplePage) =
     [ConsoleError (js ''Form submission error: FORMSPREE_ERROR_500''),
      ButtonDisabled False, ButtonText (js ''Send Message'')]"
    using settle_status_message [OF s, where r = "Response 500 (Some (js ''Unexpected token''))"
        and status = 500 and jsonError = "Some (js ''Unexpected token'')" and t = "js ''Send Message''"] d
    by simp
  have c: "statusMessage (settle (js ''Send Message'') (NoResponse (js ''Load failed'')) examplePage) =
     Some failedMessage"
    using settle_status_message [OF s, where r = "NoResponse (js ''Load failed'')"
        and message = "js ''Load failed''" and t = "js ''Send Message''"] l
    by simp
  from s ok a v b c show ?thesis by simp
qed

text \<open>
  The claim C4 as stated fails: two transport failures, both NetworkFailure, end
  with different status messages.
\<close>

theorem network_failure_two_messages:
  "classify (NoResponse (js ''Failed to fetch'')) = NetworkFailure \<and>
   classify (NoResponse (js ''Load failed'')) = NetworkFailure \<and>
   statusMessage (settle (js ''Send Message'') (NoResponse (js ''Failed to fetch'')) examplePage) =
     Some networkErrorMessage \<and>
   statusMessage (settle (js ''Send Message'') (NoResponse (js ''Load failed'')) examplePage) =
     Some failedMessage \<and>
   networkErrorMessage \<noteq> failedMessage"
proof -
  have s: "elements examplePage (js ''form-status'') \<noteq> None" by (simp add: elements_examplePage)
  show ?thesis
    using statusMessage_settled_no_response [OF s] messages_differ
    by (simp add: settle_eq catchMessage_examples)
qed

section \<open>The body of the request\<close>

text \<open>
  C9: when the handler issues the request, its body lists the three fields with
  their current values as they stand in the page, followed by the other controls of
  the form, while validation was decided on the trimmed values. On the sample page
  the address \<open> jane@example.com \<close>, valid only once trimmed, is sent with its two
  spaces.
\<close>

theorem request_body_raw_values:
  assumes "handleFormSubmit p = (Pending t, p')"
  shows "\<exists>n e m.
           elements p (js ''name'') = Some n \<and> elements p (js ''email'') = Some e \<and>
           elements p (js ''message'') = Some m \<and>
           fst (fieldRules (js ''name'') (trim (fieldValue n))) \<and>
           fst (fieldRules (js ''email'') (trim (fieldValue e))) \<and>
           fst (fieldRules (js ''message'') (trim (fieldValue m))) \<and>
           filter isFetch (newEffects p p') =
             [Fetch (formAction p)
                ([(js ''name'', fieldValue n), (js ''email'', fieldValue e),
                  (js ''message'', fieldValue m)] @
                 map (\<lambda>(k, c). (k, fieldValue c)) (ancillary p))]"
proof -
  from handleFormSubmit_Pending_page [OF assms]
  obtain n e m where n: "elements p (js ''name'') = Some n"
    and e: "elements p (js ''email'') = Some e"
    and m: "elements p (js ''message'') = Some m"
    and ok: "fieldOk (js ''name'') n" "fieldOk (js ''email'') e" "fieldOk (js ''message'') m"
    and eff: "effects p' = effects p @
             [PreventDefault, ButtonDisabled True, ButtonText (js ''Sending...''),
              Fetch (formAction p)
                ([(js ''name'', fieldValue n), (js ''email'', fieldValue e), (js ''message'', fieldValue m)] @
                 map (\<lambda>(k, c). (k, fieldValue c)) (ancillary p))]"
    by blast
  from eff have "filter isFetch (newEffects p p') =
             [Fetch (formAction p)
                ([(js ''name'', fieldValue n), (js ''email'', fieldValue e),
                  (js ''message'', fieldValue m)] @
                 map (\<lambda>(k, c). (k, fieldValue c)) (ancillary p))]"
    by (simp add: newEffects_def)
  with n e m ok show ?thesis unfolding fieldOk_def by blast
qed

theorem request_body_raw_values_witness:
  "handleFormSubmit examplePage = (Pending (js ''Send Message''), snd (handleFormSubmit examplePage)) \<and>
   filter isFetch (newEffects examplePage (snd (handleFormSubmit examplePage))) =
     [Fetch (js ''https://formspree.io/f/abcde12345'')
        [(js ''name'', js ''Jane Doe''), (js ''email'', js '' jane@example.com ''),
         (js ''message'', js ''This is a long enough message.'')]] \<and>
   trim (js '' jane@example.com '') = js ''jane@example.com'' \<and>
   fst (fieldRules (js ''email'') (js ''jane@example.com'')) \<and>
   \<not> fst (fieldRules (js ''email'') (js '' jane@example.com ''))"
proof -
  have h: "handleFormSubmit examplePage = (Pending (js ''Send Message''), snd (handleFormSubmit examplePage))"
    by (simp add: handleFormSubmit_examplePage)
  have anc: "ancillary examplePage = []" and act: "formAction examplePage = js ''https://formspree.io/f/abcde12345''"
    by (simp_all add: examplePage_def)
  from request_body_raw_values [OF h]
  have f: "filter isFetch (newEffects examplePage (snd (handleFormSubmit examplePage))) =
     [Fetch (js ''https://formspree.io/f/abcde12345'')
        [(js ''name'', js ''Jane Doe''), (js ''email'', js '' jane@example.com ''),
         (js ''message'', js ''This is a long enough message.'')]]"
    by (auto simp add: elements_examplePage anc act)
  have t: "trim (js '' jane@example.com '') = js ''jane@example.com''"
    by (simp add: trim_def js_def isWhiteSpace_def)
  have v: "fst (fieldRules (js ''email'') (js ''jane@example.com''))"
    by (simp add: fieldRules_def js_def emailRegex_def emailClass_def isWhiteSpace_def)
  have w: "\<not> fst (fieldRules (js ''email'') (js '' jane@example.com ''))"
    by (simp add: fieldRules_def js_def emailRegex_def emailClass_def isWhiteSpace_def)
  from h f t v w show ?thesis by blast
qed

section \<open>The submit button\<close>

lemma settle_button_writes:
  "\<exists>xs. newEffects q (settle t r q) = xs @ [ButtonDisabled False, ButtonText t] \<and>
        filter isButtonWrite xs = []"
proof -
  from settled_effects [of r q]
  obtain xs where "effects (settled r q) = effects q @ xs" and "filter isButtonWrite xs = []"
    by blast
  then have "newEffects q (settle t r q) = xs @ [ButtonDisabled False, ButtonText t] \<and>
        filter isButtonWrite xs = []"
    by (simp add: settle_eq newEffects_def)
  then show ?thesis by blast
qed

text \<open>
  C6, as amended: in a submit attempt that issues the request, whatever way the
  request settles, the button is written four times: disabled and relabelled by the
  handler, then enabled and given its text of before the attempt by the finally
  callback, once each and after every other call of the settling; the button ends
  enabled with its old text. The same holds for the callbacks on any page the
  request may find when it settles. An attempt that issues no request (configuration
  error, validation failure, exception) never writes to the button.
\<close>

theorem submit_button_restored:
  "((\<exists>t. fst (handleFormSubmit p) = Pending t) \<longrightarrow>
      (\<exists>b. elements p (js ''submit-btn'') = Some b \<and>
           fst (handleFormSubmit p) = Pending (textContent b) \<and>
           filter isButtonWrite (newEffects p (submitAttempt r p)) =
             [ButtonDisabled True, ButtonText (js ''Sending...''),
              ButtonDisabled False, ButtonText (textContent b)] \<and>
           elements (submitAttempt r p) (js ''submit-btn'') = Some (b\<lparr>disabled := False\<rparr>) \<and>
           (\<forall>q. \<exists>xs. newEffects q (settle (textContent b) r q) =
                        xs @ [ButtonDisabled False, ButtonText (textContent b)] \<and>
                      filter isButtonWrite xs = []))) \<and>
   (\<not> (\<exists>t. fst (handleFormSubmit p) = Pending t) \<longrightarrow>
      filter isButtonWrite (newEffects p (submitAttempt r p)) = [] \<and>
      elements (submitAttempt r p) (js ''submit-btn'') = elements p (js ''submit-btn''))"
proof -
  obtain c p1 where h: "handleFormSubmit p = (c, p1)" by (cases "handleFormSubmit p")
  show ?thesis
  proof (cases "\<exists>t. c = Pending t")
    case True
    then obtain t where c: "c = Pending t" by blast
    with h have ht: "handleFormSubmit p = (Pending t, p1)" by simp
    from handleFormSubmit_Pending_page [OF ht]
    have "\<exists>b xs. elements p (js ''submit-btn'') = Some b \<and> t = textContent b \<and>
        elements p1 (js ''submit-btn'') = Some (b\<lparr>disabled := True, textContent := js ''Sending...''\<rparr>) \<and>
        effects p1 = effects p @ xs \<and>
        filter isButtonWrite xs = [ButtonDisabled True, ButtonText (js ''Sending...'')]"
      by auto
    then obtain b xs where b: "elements p (js ''submit-btn'') = Some b" and t: "t = textContent b"
      and b1: "elements p1 (js ''submit-btn'') = Some (b\<lparr>disabled := True, textContent := js ''Sending...''\<rparr>)"
      and eff: "effects p1 = effects p @ xs"
      and xs: "filter isButtonWrite xs = [ButtonDisabled True, ButtonText (js ''Sending...'')]"
      by blast
    from settled_effects [of r p1]
    obtain ys where ys: "effects (settled r p1) = effects p1 @ ys" and nb: "filter isButtonWrite ys = []"
      by blast
    have a: "submitAttempt r p = finallyCallback t (settled r p1)"
      using ht by (rule submitAttempt_Pending)
    have w: "filter isButtonWrite (newEffects p (submitAttempt r p)) =
             [ButtonDisabled True, ButtonText (js ''Sending...''),
              ButtonDisabled False, ButtonText (textContent b)]"
      by (simp add: a ys eff newEffects_def nb xs t)
    have f: "elements (submitAttempt r p) (js ''submit-btn'') = Some (b\<lparr>disabled := False\<rparr>)"
      by (simp add: a finallyCallback_elements settled_button b1 t)
    have s: "\<forall>q. \<exists>xs. newEffects q (settle (textContent b) r q) =
                        xs @ [ButtonDisabled False, ButtonText (textContent b)] \<and>
                      filter isButtonWrite xs = []"
      using settle_button_writes by blast
    from ht t have "fst (handleFormSubmit p) = Pending (textContent b)" by simp
    with b w f s show ?thesis by blast
  next
    case False
    then have np: "\<forall>t. c \<noteq> Pending t" by blast
    from handleFormSubmit_not_Pending [OF h np]
    have w: "filter isButtonWrite (newEffects p p1) = []"
      and b: "elements p1 (js ''submit-btn'') = elements p (js ''submit-btn'')"
      by auto
    have a: "submitAttempt r p = p1" using h np by (rule submitAttempt_not_Pending)
    have "\<not> (\<exists>t. fst (handleFormSubmit p) = Pending t)" using h np by simp
    with a w b show ?thesis by simp
  qed
qed

theorem submit_button_restored_witness:
  "(\<exists>t. fst (handleFormSubmit examplePage) = Pending t) \<and>
   filter isButtonWrite (newEffects examplePage (submitAttempt (NoResponse (js ''Load failed'')) examplePage)) =
     [ButtonDisabled True, ButtonText (js ''Sending...''),
      ButtonDisabled False, ButtonText (js ''Send Message'')] \<and>
   elements (submitAttempt (NoResponse (js ''Load failed'')) examplePage) (js ''submit-btn'') =
     elements examplePage (js ''submit-btn'') \<and>
   \<not> (\<exists>t. fst (handleFormSubmit scenarioPage) = Pending t) \<and>
   filter isButtonWrite (newEffects scenarioPage (submitAttempt (NoResponse (js ''Load failed'')) scenarioPage)) = []"
proof -
  have p: "\<exists>t. fst (handleFormSubmit examplePage) = Pending t"
    by (simp add: handleFormSubmit_examplePage)
  have b: "elements examplePage (js ''submit-btn'') = Some (blankElement\<lparr>textContent := js ''Send Message''\<rparr>)"
    by (rule elements_examplePage)
  from submit_button_restored [of examplePage "NoResponse (js ''Load failed'')"] p b
  have w: "filter isButtonWrite (newEffects examplePage (submitAttempt (NoResponse (js ''Load failed'')) examplePage)) =
     [ButtonDisabled True, ButtonText (js ''Sending...''),
      ButtonDisabled False, ButtonText (js ''Send Message'')] \<and>
   elements (submitAttempt (NoResponse (js ''Load failed'')) examplePage) (js ''submit-btn'') =
     elements examplePage (js ''submit-btn'')"
    by (auto simp add: blankElement_def)
  have "handleFormSubmit scenarioPage =
      (Returned, showFormStatus fixErrorsMessage (js ''error'')
         (validated (blankElement\<lparr>fieldValue := js ''A''\<rparr>) (blankElement\<lparr>fieldValue := js ''a@b.com''\<rparr>)
            (blankElement\<lparr>fieldValue := js ''Hello there!''\<rparr>) scenarioPage))"
    by (simp add: handleFormSubmit_eq elements_scenarioPage fieldOk_scenarioPage)
       (simp add: scenarioPage_def examplePage_def js_def)
  then have np: "\<not> (\<exists>t. fst (handleFormSubmit scenarioPage) = Pending t)" by simp
  with submit_button_restored [of scenarioPage "NoResponse (js ''Load failed'')"]
  have "filter isButtonWrite (newEffects scenarioPage (submitAttempt (NoResponse (js ''Load failed'')) scenarioPage)) = []"
    by blast
  with p w np show ?thesis by blast
qed

lemma handleFormSubmit_scenarioPage:
  "handleFormSubmit scenarioPage =
      (Returned, showFormStatus fixErrorsMessage (js ''error'')
         (validated (blankElement\<lparr>fieldValue := js ''A''\<rparr>) (blankElement\<lparr>fieldValue := js ''a@b.com''\<rparr>)
            (blankElement\<lparr>fieldValue := js ''Hello there!''\<rparr>) scenarioPage))"
  by (simp add: handleFormSubmit_eq elements_scenarioPage fieldOk_scenarioPage)
     (simp add: scenarioPage_def examplePage_def js_def)

lemma handleFormSubmit_disabledPage:
  "\<exists>p1. handleFormSubmit disabledPage = (Pending (js ''Send Message''), p1)"
proof -
  have "elements disabledPage (js ''name'') = elements examplePage (js ''name'')"
    "elements disabledPage (js ''email'') = elements examplePage (js ''email'')"
    "elements disabledPage (js ''message'') = elements examplePage (js ''message'')"
    "elements disabledPage (js ''submit-btn'') =
       Some (blankElement\<lparr>textContent := js ''Send Message'', disabled := True\<rparr>)"
    "formAction disabledPage = formAction examplePage"
    by (simp_all add: disabledPage_def)
  then show ?thesis
    by (simp add: handleFormSubmit_eq includes_examplePage elements_examplePage fieldOk_examplePage)
qed

text \<open>
  The claim C6 as stated fails: on the scenario page the attempt ends at the
  validation failure and nothing is restored, and a button that is disabled before
  the attempt ends enabled, not disabled.
\<close>

theorem submit_button_not_restored:
  "filter isButtonWrite (newEffects scenarioPage (submitAttempt (Response 200 None) scenarioPage)) = [] \<and>
   map_option disabled (elements disabledPage (js ''submit-btn'')) = Some True \<and>
   map_option disabled (elements (submitAttempt (Response 200 None) disabledPage) (js ''submit-btn'')) =
     Some False"
proof -
  have np: "\<forall>t. Returned \<noteq> Pending t" by simp
  have "submitAttempt (Response 200 None) scenarioPage = snd (handleFormSubmit scenarioPage)"
    using submitAttempt_not_Pending [OF handleFormSubmit_scenarioPage np]
    by (simp add: handleFormSubmit_scenarioPage)
  moreover have "filter isButtonWrite (newEffects scenarioPage (snd (handleFormSubmit scenarioPage))) = []"
    using handleFormSubmit_not_Pending [OF handleFormSubmit_scenarioPage np]
    by (simp add: handleFormSubmit_scenarioPage)
  ultimately have a:
    "filter isButtonWrite (newEffects scenarioPage (submitAttempt (Response 200 None) scenarioPage)) = []"
    by simp
  have b: "map_option disabled (elements disabledPage (js ''submit-btn'')) = Some True"
    by (simp add: disabledPage_def)
  from handleFormSubmit_disabledPage obtain p1
    where h: "handleFormSubmit disabledPage = (Pending (js ''Send Message''), p1)" by blast
  from handleFormSubmit_Pending_page [OF h]
  have "elements p1 (js ''submit-btn'') \<noteq> None" by auto
  then have c: "map_option disabled (elements (submitAttempt (Response 200 None) disabledPage) (js ''submit-btn'')) =
     Some False"
    by (auto simp add: submitAttempt_Pending [OF h] finallyCallback_elements settled_button)
  from a b c show ?thesis by blast
qed

section \<open>The fallback contact\<close>

lemma mentionsContactEmail_messages:
  "mentionsContactEmail failedMessage" "\<not> mentionsContactEmail networkErrorMessage"
  by (simp_all add: mentionsContactEmail_def failedMessage_def networkErrorMessage_def js_def)

text \<open>
  C7, as amended: after a transport failure the status message names the fallback
  e-mail address exactly when the text of the transport error does not contain
  \<open>Failed to fetch\<close>; when it does, the message is the network-error message, which
  names no contact.
\<close>

theorem network_failure_fallback_contact:
  assumes "elements p (js ''form-status'') \<noteq> None"
    and "message \<noteq> js ''FORMSPREE_NOT_FOUND''" and "message \<noteq> js ''FORMSPREE_VALIDATION_ERROR''"
  shows "\<exists>shown. statusMessage (settle t (NoResponse message) p) = Some shown \<and>
           shown = (if includes_str message (js ''Failed to fetch'') then networkErrorMessage
                    else failedMessage) \<and>
           mentionsContactEmail shown = (\<not> includes_str message (js ''Failed to fetch''))"
  using assms statusMessage_settled_no_response [OF assms(1), of message] mentionsContactEmail_messages
  by (simp add: settle_eq catchMessage_def)

theorem network_failure_fallback_contact_witness:
  "elements examplePage (js ''form-status'') \<noteq> None \<and>
   js ''Load failed'' \<noteq> js ''FORMSPREE_NOT_FOUND'' \<and>
   js ''Load failed'' \<noteq> js ''FORMSPREE_VALIDATION_ERROR'' \<and>
   \<not> includes_str (js ''Load failed'') (js ''Failed to fetch'') \<and>
   statusMessage (settle (js ''Send Message'') (NoResponse (js ''Load failed'')) examplePage) =
     Some failedMessage \<and>
   mentionsContactEmail failedMessage"
proof -
  have s: "elements examplePage (js ''form-status'') \<noteq> None" by (simp add: elements_examplePage)
  have a: "js ''Load failed'' \<noteq> js ''FORMSPREE_NOT_FOUND''" by simp
  have b: "js ''Load failed'' \<noteq> js ''FORMSPREE_VALIDATION_ERROR''" by simp
  have l: "\<not> includes_str (js ''Load failed'') (js ''Failed to fetch'')" by (simp add: js_def)
  from network_failure_fallback_contact [OF s a b, of "js ''Send Message''"] l
  have "statusMessage (settle (js ''Send Message'') (NoResponse (js ''Load failed'')) examplePage) =
     Some failedMessage \<and> mentionsContactEmail failedMessage"
    by auto
  with s a b l show ?thesis by blast
qed

text \<open>
  The claim C7 as stated fails: a transport failure with the text \<open>Failed to fetch\<close>
  ends with the network-error message, which names no contact.
\<close>

theorem failed_to_fetch_no_contact:
  "statusMessage (settle (js ''Send Message'') (NoResponse (js ''Failed to fetch'')) examplePage) =
     Some networkErrorMessage \<and>
   \<not> mentionsContactEmail networkErrorMessage"
proof -
  have s: "elements examplePage (js ''form-status'') \<noteq> None" by (simp add: elements_examplePage)
  show ?thesis
    using statusMessage_settled_no_response [OF s] mentionsContactEmail_messages
    by (simp add: settle_eq catchMessage_examples)
qed

end
